theory Spec2Isabelle
  imports Main "HOL-Library.Sublist"
begin

section \<open>The broadcast engine of Main.py (class TelegramUserbot)\<close>

text \<open>
  The three methods \<open>get_all_groups\<close>, \<open>send_to_all_groups_once\<close> and
  \<open>broadcast_with_delay\<close> are embedded as functions that pass the history of
  everything the program has done so far: each call of the chat client, each
  \<open>asyncio.sleep\<close> and each logger call appends one event. The chat client is
  the environment; its answer to a call may depend on the whole history.
\<close>

subsection \<open>Data\<close>

text \<open>
  \<open>dialog.entity\<close>: a Telethon \<open>Channel\<close> (with its \<open>megagroup\<close> and
  \<open>broadcast\<close> flags), a \<open>Chat\<close>, or anything else (a \<open>User\<close>).
\<close>

datatype entity =
    Channel (entity_id: int) (megagroup: bool) (broadcast: bool)
  | Chat (entity_id: int)
  | User (entity_id: int)

record dialog =
  d_entity :: entity
  d_title :: string

text \<open>The dict appended to \<open>groups\<close>: keys \<open>entity\<close>, \<open>title\<close>, \<open>id\<close>, \<open>type\<close>.\<close>

record group =
  g_entity :: entity
  g_title :: string
  g_id :: int
  g_type :: string

text \<open>
  What \<open>client.send_message\<close> does: it returns, or raises one of the three
  Telethon errors the code names, or raises some other \<open>Exception\<close>. What is
  raised outside the \<open>Exception\<close> hierarchy (a keyboard interrupt, the
  cancellation of the task) is not an error of the send and is not modelled for
  \<open>send_message\<close>; for \<open>iter_dialogs\<close> it is, see \<open>enum_result\<close>.
\<close>

datatype send_result =
    Delivered
  | FloodWaitError (seconds: int)
  | ChatWriteForbiddenError
  | UserBannedInChannelError
  | OtherException

text \<open>
  What can be raised outside the \<open>Exception\<close> hierarchy while the dialogs are
  enumerated: \<open>asyncio.CancelledError\<close> (a \<open>BaseException\<close>) when the task is
  cancelled, or \<open>KeyboardInterrupt\<close>. No \<open>except Exception\<close> catches them.
\<close>

datatype escaping = CancelledError | KeyboardInterrupt

text \<open>
  What \<open>client.iter_dialogs\<close> does: it yields the dialogs and stops, or yields
  some dialogs and then raises an \<open>Exception\<close>, or yields some dialogs and then
  raises outside the \<open>Exception\<close> hierarchy.
\<close>

datatype enum_result =
    Yields "dialog list"
  | YieldsThenRaises "dialog list"
  | YieldsThenEscapes "dialog list" escaping

text \<open>The enumeration ends, or raises what \<open>except Exception\<close> catches.\<close>

fun no_escape :: "enum_result \<Rightarrow> bool" where
  "no_escape (YieldsThenEscapes ds e) = False"
| "no_escape _ = True"

text \<open>Every logger call of the three methods, with the values it formats.\<close>

datatype log_entry =
    FoundGroups nat
  | ErrorGettingGroups
  | NoGroupsFound
  | SendingTo nat
  | Skipping string
  | SentTo string nat nat
  | FloodWaitFor int
  | SentAfterFloodWait string
  | FailedAfterRetry string
  | NoPermission string
  | BannedIn string
  | ErrorSending string
  | StartingBroadcast int int
  | RoundHeader int int
  | RoundResults int nat nat
  | WaitingNextRound int
  | FinalSummary
  | TotalSent nat
  | TotalFailed nat
  | RoundsCompleted int

datatype event =
    IterDialogs
  | SendMessage entity string
  | Sleep int
  | Log log_entry

record provider =
  iter_dialogs :: "event list \<Rightarrow> enum_result"
  send_message :: "event list \<Rightarrow> entity \<Rightarrow> string \<Rightarrow> send_result"

subsection \<open>get_all_groups\<close>

text \<open>The body of the \<open>async for\<close> loop (lines 49 to 65).\<close>

definition scan_dialog :: "dialog \<Rightarrow> group list \<Rightarrow> group list" where
  "scan_dialog d groups =
     (case d_entity d of
        Channel i mg bc \<Rightarrow>
          if mg \<or> \<not> bc
          then groups @ [\<lparr>g_entity = d_entity d, g_title = d_title d, g_id = i,
                          g_type = (if mg then ''supergroup'' else ''channel'')\<rparr>]
          else groups
      | Chat i \<Rightarrow>
          groups @ [\<lparr>g_entity = d_entity d, g_title = d_title d, g_id = i,
                     g_type = ''group''\<rparr>]
      | User i \<Rightarrow> groups)"

fun scan_dialogs :: "dialog list \<Rightarrow> group list \<Rightarrow> group list" where
  "scan_dialogs [] groups = groups"
| "scan_dialogs (d # ds) groups = scan_dialogs ds (scan_dialog d groups)"

text \<open>
  The method (lines 43 to 72). \<open>Inr\<close> is the returned list. \<open>except Exception\<close>
  (line 70) catches an \<open>Exception\<close> and returns the empty list; what is raised
  outside that hierarchy leaves the method: \<open>Inl\<close>.
\<close>

definition get_all_groups ::
  "provider \<Rightarrow> event list \<Rightarrow> (escaping + group list) \<times> event list" where
  "get_all_groups P tr =
     (case iter_dialogs P tr of
        Yields ds \<Rightarrow>
          (let groups = scan_dialogs ds []
           in (Inr groups, tr @ [IterDialogs, Log (FoundGroups (length groups))]))
      | YieldsThenRaises ds \<Rightarrow>
          (Inr [], tr @ [IterDialogs, Log ErrorGettingGroups])
      | YieldsThenEscapes ds e \<Rightarrow>
          (Inl e, tr @ [IterDialogs]))"

subsection \<open>send_to_all_groups_once\<close>

text \<open>The local variables of the \<open>for group in groups\<close> loop, and the history.\<close>

record send_state =
  successful_sends :: nat
  failed_sends :: nat
  trace :: "event list"

text \<open>
  The body of the loop (lines 97 to 132) for one group; \<open>n\<close> is \<open>len(groups)\<close>,
  which the success message formats.
\<close>

definition send_to_group ::
  "provider \<Rightarrow> string \<Rightarrow> int list \<Rightarrow> nat \<Rightarrow> group \<Rightarrow> send_state \<Rightarrow> send_state" where
  "send_to_group P message exclude_ids n g st =
     (if g_id g \<in> set exclude_ids
      then st\<lparr>trace := trace st @ [Log (Skipping (g_title g))]\<rparr>
      else
        (let call = SendMessage (g_entity g) message in
         case send_message P (trace st) (g_entity g) message of
           Delivered \<Rightarrow>
             st\<lparr>successful_sends := successful_sends st + 1,
                trace := trace st @
                  [call, Log (SentTo (g_title g) (successful_sends st + 1) n)]\<rparr>
         | FloodWaitError s \<Rightarrow>
             (let tr1 = trace st @ [call, Log (FloodWaitFor s), Sleep (s + 1)] in
              case send_message P tr1 (g_entity g) message of
                Delivered \<Rightarrow>
                  st\<lparr>successful_sends := successful_sends st + 1,
                     trace := tr1 @ [call, Log (SentAfterFloodWait (g_title g))]\<rparr>
              | _ \<Rightarrow>
                  st\<lparr>failed_sends := failed_sends st + 1,
                     trace := tr1 @ [call, Log (FailedAfterRetry (g_title g))]\<rparr>)
         | ChatWriteForbiddenError \<Rightarrow>
             st\<lparr>failed_sends := failed_sends st + 1,
                trace := trace st @ [call, Log (NoPermission (g_title g))]\<rparr>
         | UserBannedInChannelError \<Rightarrow>
             st\<lparr>failed_sends := failed_sends st + 1,
                trace := trace st @ [call, Log (BannedIn (g_title g))]\<rparr>
         | OtherException \<Rightarrow>
             st\<lparr>failed_sends := failed_sends st + 1,
                trace := trace st @ [call, Log (ErrorSending (g_title g))]\<rparr>))"

fun send_loop ::
  "provider \<Rightarrow> string \<Rightarrow> int list \<Rightarrow> nat \<Rightarrow> group list \<Rightarrow> send_state \<Rightarrow> send_state" where
  "send_loop P message exclude_ids n [] st = st"
| "send_loop P message exclude_ids n (g # gs) st =
     send_loop P message exclude_ids n gs (send_to_group P message exclude_ids n g st)"

text \<open>
  \<open>exclude_ids\<close> is \<open>None\<close> or a list: \<open>if exclude_ids is None: exclude_ids = []\<close>
  (lines 82 and 83).
\<close>

definition or_empty :: "int list option \<Rightarrow> int list" where
  "or_empty exclude_ids = (case exclude_ids of None \<Rightarrow> [] | Some xs \<Rightarrow> xs)"

text \<open>
  The method from line 87 on, once \<open>groups\<close> holds the resolved catalog; the
  result is the returned pair \<open>successful_sends, failed_sends\<close>.
\<close>

definition dispatch_groups ::
  "provider \<Rightarrow> string \<Rightarrow> int list \<Rightarrow> group list \<Rightarrow> event list \<Rightarrow> (nat \<times> nat) \<times> event list" where
  "dispatch_groups P message exclude_ids groups tr1 =
     (if groups = []
      then ((0, 0), tr1 @ [Log NoGroupsFound])
      else
        (let st = send_loop P message exclude_ids (length groups) groups
                    \<lparr>successful_sends = 0, failed_sends = 0,
                     trace = tr1 @ [Log (SendingTo (length groups))]\<rparr>
         in ((successful_sends st, failed_sends st), trace st)))"

text \<open>
  The whole method (lines 82 to 134). The call of \<open>get_all_groups\<close> (line 85) is
  outside every \<open>try\<close>: what escapes from it leaves this method too.
\<close>

definition send_to_all_groups_once ::
  "provider \<Rightarrow> string \<Rightarrow> int list option \<Rightarrow> event list
     \<Rightarrow> (escaping + nat \<times> nat) \<times> event list" where
  "send_to_all_groups_once P message exclude_ids tr =
     (let exclude_ids' = or_empty exclude_ids;
          (resolved, tr1) = get_all_groups P tr
      in case resolved of
           Inl e \<Rightarrow> (Inl e, tr1)
         | Inr groups \<Rightarrow>
             (let (counts, tr2) = dispatch_groups P message exclude_ids' groups tr1
              in (Inr counts, tr2)))"

subsection \<open>broadcast_with_delay\<close>

text \<open>The local variables of the rounds loop, and the history.\<close>

record round_state =
  total_success :: nat
  total_failed :: nat
  history :: "event list"

text \<open>
  The body of the rounds loop (lines 152 to 163) for one \<open>round_num\<close>. The first
  component is what escaped from the pass, if anything did: then the body stops
  at line 154.
\<close>

definition run_round ::
  "provider \<Rightarrow> string \<Rightarrow> int \<Rightarrow> int \<Rightarrow> int list option \<Rightarrow> int \<Rightarrow> round_state
     \<Rightarrow> escaping option \<times> round_state" where
  "run_round P message rounds delay_between_rounds exclude_ids round_num rs =
     (let tr0 = history rs @ [Log (RoundHeader round_num rounds)];
          (result, tr1) = send_to_all_groups_once P message exclude_ids tr0
      in case result of
           Inl e \<Rightarrow> (Some e, rs\<lparr>history := tr1\<rparr>)
         | Inr (success, failed) \<Rightarrow>
             (let tr2 = tr1 @ [Log (RoundResults round_num success failed)];
                  tr3 = (if round_num < rounds
                         then tr2 @ [Log (WaitingNextRound delay_between_rounds),
                                     Sleep delay_between_rounds]
                         else tr2)
              in (None,
                  \<lparr>total_success = total_success rs + success,
                   total_failed = total_failed rs + failed,
                   history = tr3\<rparr>)))"

text \<open>
  \<open>for round_num in range(1, rounds + 1)\<close>, from the current \<open>round_num\<close> on:
  the range is empty when \<open>rounds\<close> is below \<open>round_num\<close>. The loop ends early
  when something escapes from a round.
\<close>

function rounds_loop ::
  "provider \<Rightarrow> string \<Rightarrow> int \<Rightarrow> int \<Rightarrow> int list option \<Rightarrow> int \<Rightarrow> round_state
     \<Rightarrow> escaping option \<times> round_state" where
  "rounds_loop P message rounds delay_between_rounds exclude_ids round_num rs =
     (if round_num < rounds + 1
      then
        (case run_round P message rounds delay_between_rounds exclude_ids round_num rs of
           (Some e, rs') \<Rightarrow> (Some e, rs')
         | (None, rs') \<Rightarrow>
             rounds_loop P message rounds delay_between_rounds exclude_ids (round_num + 1) rs')
      else (None, rs))"
  by pat_completeness auto
termination
  by (relation "measure (\<lambda>(P, message, rounds, delay, ex, round_num, rs). nat (rounds + 1 - round_num))")
     auto

text \<open>
  What the spec calls a BroadcastSummary. The source has no such value; the type
  is here to state what the method would have to return.
\<close>

record broadcast_summary =
  totalSuccess :: nat
  totalFailed :: nat
  roundsExecuted :: nat

text \<open>
  The method (lines 146 to 168). It has no \<open>return\<close> statement, so when it
  returns its value is Python's \<open>None\<close>: \<open>Inr None\<close>. \<open>Inl\<close> is what escaped
  from a round; then the final summary is not logged.
\<close>

definition broadcast_with_delay ::
  "provider \<Rightarrow> string \<Rightarrow> int \<Rightarrow> int \<Rightarrow> int list option \<Rightarrow> event list
     \<Rightarrow> (escaping + broadcast_summary option) \<times> event list" where
  "broadcast_with_delay P message rounds delay_between_rounds exclude_ids tr =
     (case rounds_loop P message rounds delay_between_rounds exclude_ids 1
             \<lparr>total_success = 0, total_failed = 0,
              history = tr @ [Log (StartingBroadcast rounds delay_between_rounds)]\<rparr> of
        (Some e, rs) \<Rightarrow> (Inl e, history rs)
      | (None, rs) \<Rightarrow>
          (Inr None,
           history rs @
             [Log FinalSummary, Log (TotalSent (total_success rs)),
              Log (TotalFailed (total_failed rs)), Log (RoundsCompleted rounds)]))"

subsection \<open>Reading a history\<close>

text \<open>The calls of \<open>client.send_message\<close>, in order, with their arguments.\<close>

definition sends :: "event list \<Rightarrow> (entity \<times> string) list" where
  "sends tr = List.map_filter (\<lambda>e. case e of SendMessage x m \<Rightarrow> Some (x, m) | _ \<Rightarrow> None) tr"

text \<open>The arguments of the calls of \<open>asyncio.sleep\<close>, in order.\<close>

definition sleeps :: "event list \<Rightarrow> int list" where
  "sleeps tr = List.map_filter (\<lambda>e. case e of Sleep n \<Rightarrow> Some n | _ \<Rightarrow> None) tr"

definition logs :: "event list \<Rightarrow> log_entry list" where
  "logs tr = List.map_filter (\<lambda>e. case e of Log l \<Rightarrow> Some l | _ \<Rightarrow> None) tr"

text \<open>The number of calls of \<open>client.iter_dialogs\<close>.\<close>

definition resolutions :: "event list \<Rightarrow> nat" where
  "resolutions tr = length (filter (\<lambda>e. e = IterDialogs) tr)"

text \<open>
  The outcome a log entry reports for a destination: sent (at once or after the
  flood wait), failed (any of the four failure messages), or skipped.
\<close>

fun sent_title :: "log_entry \<Rightarrow> string option" where
  "sent_title (SentTo t k n) = Some t"
| "sent_title (SentAfterFloodWait t) = Some t"
| "sent_title _ = None"

fun failed_title :: "log_entry \<Rightarrow> string option" where
  "failed_title (FailedAfterRetry t) = Some t"
| "failed_title (NoPermission t) = Some t"
| "failed_title (BannedIn t) = Some t"
| "failed_title (ErrorSending t) = Some t"
| "failed_title _ = None"

fun skipped_title :: "log_entry \<Rightarrow> string option" where
  "skipped_title (Skipping t) = Some t"
| "skipped_title _ = None"

fun attempted_title :: "log_entry \<Rightarrow> string option" where
  "attempted_title l = (case sent_title l of Some t \<Rightarrow> Some t | None \<Rightarrow> failed_title l)"

definition sent_titles :: "event list \<Rightarrow> string list" where
  "sent_titles tr = List.map_filter sent_title (logs tr)"

definition failed_titles :: "event list \<Rightarrow> string list" where
  "failed_titles tr = List.map_filter failed_title (logs tr)"

definition skipped_titles :: "event list \<Rightarrow> string list" where
  "skipped_titles tr = List.map_filter skipped_title (logs tr)"

definition attempted_titles :: "event list \<Rightarrow> string list" where
  "attempted_titles tr = List.map_filter attempted_title (logs tr)"

definition round_headers :: "event list \<Rightarrow> (int \<times> int) list" where
  "round_headers tr =
     List.map_filter (\<lambda>l. case l of RoundHeader i r \<Rightarrow> Some (i, r) | _ \<Rightarrow> None) (logs tr)"

text \<open>
  Every \<open>asyncio.sleep\<close> of the program directly follows the logger call that
  announces it. \<open>pauses\<close> pairs each sleep with the log entry just before it;
  \<open>prev\<close> is the event before the list.
\<close>

fun pauses_from :: "event option \<Rightarrow> event list \<Rightarrow> (log_entry \<times> int) list" where
  "pauses_from prev [] = []"
| "pauses_from prev (e # tr) =
     (case e of
        Sleep n \<Rightarrow> (case prev of Some (Log l) \<Rightarrow> [(l, n)] | _ \<Rightarrow> [])
      | _ \<Rightarrow> []) @ pauses_from (Some e) tr"

definition pauses :: "event list \<Rightarrow> (log_entry \<times> int) list" where
  "pauses tr = pauses_from None tr"

text \<open>The pauses between rounds, and the pauses for a flood wait (with the wait).\<close>

definition round_pauses :: "event list \<Rightarrow> int list" where
  "round_pauses tr =
     List.map_filter (\<lambda>(l, n). case l of WaitingNextRound d \<Rightarrow> Some n | _ \<Rightarrow> None) (pauses tr)"

definition flood_pauses :: "event list \<Rightarrow> (int \<times> int) list" where
  "flood_pauses tr =
     List.map_filter (\<lambda>(l, n). case l of FloodWaitFor w \<Rightarrow> Some (w, n) | _ \<Rightarrow> None) (pauses tr)"

subsection \<open>The exclusion filter of the spec\<close>

text \<open>
  Section 4.2 of the spec: \<open>filter(catalog, exclusionSet)\<close> gives the accepted and
  the skipped destinations, partitioned by identifier membership. The source has
  no such function: the loop of \<open>send_to_all_groups_once\<close> skips an excluded group
  when it reaches it. This definition follows the spec, to compare the loop with.
\<close>

definition spec_exclusion_filter :: "group list \<Rightarrow> int list \<Rightarrow> group list \<times> group list" where
  "spec_exclusion_filter catalog exclusionSet =
     (filter (\<lambda>g. g_id g \<notin> set exclusionSet) catalog,
      filter (\<lambda>g. g_id g \<in> set exclusionSet) catalog)"

subsection \<open>Concrete providers and catalogs\<close>

text \<open>
  Scenario C of the spec: A (id 1) accepts the message, B (id 2) raises a flood
  wait of 5 seconds and accepts the message once 6 seconds have been slept, C
  (id 3) forbids writing; D (id 4) has banned the account.
\<close>

definition scenario_c :: provider where
  "scenario_c =
     \<lparr>iter_dialogs = (\<lambda>tr. Yields [\<lparr>d_entity = Chat 1, d_title = ''A''\<rparr>,
                                  \<lparr>d_entity = Chat 2, d_title = ''B''\<rparr>,
                                  \<lparr>d_entity = Chat 3, d_title = ''C''\<rparr>,
                                  \<lparr>d_entity = Chat 4, d_title = ''D''\<rparr>]),
      send_message = (\<lambda>tr e m.
         if entity_id e = 2 then (if 6 \<in> set (sleeps tr) then Delivered else FloodWaitError 5)
         else if entity_id e = 3 then ChatWriteForbiddenError
         else if entity_id e = 4 then UserBannedInChannelError
         else Delivered)\<rparr>"

text \<open>A provider with one group, where every send raises a flood wait of 5 seconds.\<close>

definition always_flooding :: provider where
  "always_flooding =
     \<lparr>iter_dialogs = (\<lambda>tr. Yields [\<lparr>d_entity = Chat 2, d_title = ''B''\<rparr>]),
      send_message = (\<lambda>tr e m. FloodWaitError 5)\<rparr>"

text \<open>The groups of scenario C as the catalog holds them.\<close>

definition group_of :: "int \<Rightarrow> string \<Rightarrow> group" where
  "group_of i t = \<lparr>g_entity = Chat i, g_title = t, g_id = i, g_type = ''group''\<rparr>"

definition start :: "event list \<Rightarrow> send_state" where
  "start tr = \<lparr>successful_sends = 0, failed_sends = 0, trace = tr\<rparr>"

text \<open>Scenario A of the spec: a group, a supergroup and a broadcast channel.\<close>

definition scenario_a :: provider where
  "scenario_a =
     \<lparr>iter_dialogs = (\<lambda>tr. Yields [\<lparr>d_entity = Chat 1, d_title = ''G1''\<rparr>,
                                  \<lparr>d_entity = Channel 2 True False, d_title = ''G2''\<rparr>,
                                  \<lparr>d_entity = Channel 3 False True, d_title = ''C1''\<rparr>]),
      send_message = (\<lambda>tr e m. Delivered)\<rparr>"

text \<open>
  Scenario D of the spec: the catalog always has one destination, and every send
  to it raises an unclassified error.
\<close>

definition scenario_d :: provider where
  "scenario_d =
     \<lparr>iter_dialogs = (\<lambda>tr. Yields [\<lparr>d_entity = Chat 1, d_title = ''G1''\<rparr>]),
      send_message = (\<lambda>tr e m. OtherException)\<rparr>"

text \<open>A provider whose enumeration is cancelled after the first dialog.\<close>

definition cancelled_enumeration :: provider where
  "cancelled_enumeration =
     \<lparr>iter_dialogs = (\<lambda>tr. YieldsThenEscapes [\<lparr>d_entity = Chat 1, d_title = ''G1''\<rparr>]
                                CancelledError),
      send_message = (\<lambda>tr e m. Delivered)\<rparr>"

text \<open>A provider whose enumeration raises an \<open>Exception\<close> after the first dialog.\<close>

definition failing_enumeration :: provider where
  "failing_enumeration =
     \<lparr>iter_dialogs = (\<lambda>tr. YieldsThenRaises [\<lparr>d_entity = Chat 1, d_title = ''G1''\<rparr>]),
      send_message = (\<lambda>tr e m. Delivered)\<rparr>"

text \<open>A provider with one channel that is neither a megagroup nor a broadcast channel.\<close>

definition plain_channel :: provider where
  "plain_channel =
     \<lparr>iter_dialogs = (\<lambda>tr. Yields [\<lparr>d_entity = Channel 7 False False, d_title = ''N''\<rparr>]),
      send_message = (\<lambda>tr e m. Delivered)\<rparr>"

section \<open>Properties\<close>

subsection \<open>Reading a history: rewrite rules\<close>

lemma map_filter_append:
  "List.map_filter f (xs @ ys) = List.map_filter f xs @ List.map_filter f ys"
  by (simp add: List.map_filter_def)

lemma sends_simps [simp]:
  "sends [] = []"
  "sends (xs @ ys) = sends xs @ sends ys"
  "sends (SendMessage x m # tr) = (x, m) # sends tr"
  "sends (IterDialogs # tr) = sends tr"
  "sends (Sleep n # tr) = sends tr"
  "sends (Log l # tr) = sends tr"
  by (simp_all add: sends_def map_filter_append List.map_filter_simps)

lemma sleeps_simps [simp]:
  "sleeps [] = []"
  "sleeps (xs @ ys) = sleeps xs @ sleeps ys"
  "sleeps (SendMessage x m # tr) = sleeps tr"
  "sleeps (IterDialogs # tr) = sleeps tr"
  "sleeps (Sleep n # tr) = n # sleeps tr"
  "sleeps (Log l # tr) = sleeps tr"
  by (simp_all add: sleeps_def map_filter_append List.map_filter_simps)

lemma logs_simps [simp]:
  "logs [] = []"
  "logs (xs @ ys) = logs xs @ logs ys"
  "logs (SendMessage x m # tr) = logs tr"
  "logs (IterDialogs # tr) = logs tr"
  "logs (Sleep n # tr) = logs tr"
  "logs (Log l # tr) = l # logs tr"
  by (simp_all add: logs_def map_filter_append List.map_filter_simps)

lemma resolutions_simps [simp]:
  "resolutions [] = 0"
  "resolutions (xs @ ys) = resolutions xs + resolutions ys"
  "resolutions (SendMessage x m # tr) = resolutions tr"
  "resolutions (IterDialogs # tr) = Suc (resolutions tr)"
  "resolutions (Sleep n # tr) = resolutions tr"
  "resolutions (Log l # tr) = resolutions tr"
  by (simp_all add: resolutions_def)

lemma titles_append [simp]:
  "sent_titles (xs @ ys) = sent_titles xs @ sent_titles ys"
  "failed_titles (xs @ ys) = failed_titles xs @ failed_titles ys"
  "skipped_titles (xs @ ys) = skipped_titles xs @ skipped_titles ys"
  "attempted_titles (xs @ ys) = attempted_titles xs @ attempted_titles ys"
  "round_headers (xs @ ys) = round_headers xs @ round_headers ys"
  by (simp_all add: sent_titles_def failed_titles_def skipped_titles_def attempted_titles_def
      round_headers_def map_filter_append)

lemma titles_Nil [simp]:
  "sent_titles [] = []" "failed_titles [] = []" "skipped_titles [] = []"
  "attempted_titles [] = []" "round_headers [] = []"
  by (simp_all add: sent_titles_def failed_titles_def skipped_titles_def attempted_titles_def
      round_headers_def List.map_filter_simps)

lemma titles_Cons [simp]:
  "sent_titles (Log l # tr) = (case sent_title l of None \<Rightarrow> sent_titles tr | Some t \<Rightarrow> t # sent_titles tr)"
  "failed_titles (Log l # tr) = (case failed_title l of None \<Rightarrow> failed_titles tr | Some t \<Rightarrow> t # failed_titles tr)"
  "skipped_titles (Log l # tr) = (case skipped_title l of None \<Rightarrow> skipped_titles tr | Some t \<Rightarrow> t # skipped_titles tr)"
  "attempted_titles (Log l # tr) = (case attempted_title l of None \<Rightarrow> attempted_titles tr | Some t \<Rightarrow> t # attempted_titles tr)"
  "round_headers (Log l # tr) = (case l of RoundHeader i r \<Rightarrow> (i, r) # round_headers tr | _ \<Rightarrow> round_headers tr)"
  by (simp_all add: sent_titles_def failed_titles_def skipped_titles_def attempted_titles_def
      round_headers_def List.map_filter_simps split: option.split log_entry.split)

lemma titles_other [simp]:
  "sent_titles (SendMessage x m # tr) = sent_titles tr"
  "sent_titles (Sleep k # tr) = sent_titles tr"
  "sent_titles (IterDialogs # tr) = sent_titles tr"
  "failed_titles (SendMessage x m # tr) = failed_titles tr"
  "failed_titles (Sleep k # tr) = failed_titles tr"
  "failed_titles (IterDialogs # tr) = failed_titles tr"
  "skipped_titles (SendMessage x m # tr) = skipped_titles tr"
  "skipped_titles (Sleep k # tr) = skipped_titles tr"
  "skipped_titles (IterDialogs # tr) = skipped_titles tr"
  "attempted_titles (SendMessage x m # tr) = attempted_titles tr"
  "attempted_titles (Sleep k # tr) = attempted_titles tr"
  "attempted_titles (IterDialogs # tr) = attempted_titles tr"
  "round_headers (SendMessage x m # tr) = round_headers tr"
  "round_headers (Sleep k # tr) = round_headers tr"
  "round_headers (IterDialogs # tr) = round_headers tr"
  by (simp_all add: sent_titles_def failed_titles_def skipped_titles_def attempted_titles_def
      round_headers_def)

lemma pauses_from_append:
  "pauses_from prev (xs @ ys) =
     pauses_from prev xs @ pauses_from (if xs = [] then prev else Some (last xs)) ys"
  by (induction xs arbitrary: prev) auto

lemma pauses_append:
  "pauses (xs @ ys) = pauses xs @ pauses_from (if xs = [] then None else Some (last xs)) ys"
  by (simp add: pauses_def pauses_from_append)


subsection \<open>The loop body and the loop of a pass\<close>

lemmas body_unfold = send_to_group_def Let_def

lemma body_counts:
  "successful_sends (send_to_group P m E n g st) + failed_sends (send_to_group P m E n g st) =
     successful_sends st + failed_sends st + (if g_id g \<in> set E then 0 else 1)"
  by (simp add: body_unfold split: send_result.split)

lemma body_sent:
  "successful_sends (send_to_group P m E n g st) + length (sent_titles (trace st)) =
     successful_sends st + length (sent_titles (trace (send_to_group P m E n g st)))"
  by (simp add: body_unfold split: send_result.split)

lemma body_failed:
  "failed_sends (send_to_group P m E n g st) + length (failed_titles (trace st)) =
     failed_sends st + length (failed_titles (trace (send_to_group P m E n g st)))"
  by (simp add: body_unfold split: send_result.split)

lemma body_skipped:
  "skipped_titles (trace (send_to_group P m E n g st)) =
     skipped_titles (trace st) @ (if g_id g \<in> set E then [g_title g] else [])"
  by (simp add: body_unfold split: send_result.split)

lemma body_attempted:
  "attempted_titles (trace (send_to_group P m E n g st)) =
     attempted_titles (trace st) @ (if g_id g \<in> set E then [] else [g_title g])"
  by (simp add: body_unfold split: send_result.split)

lemma body_targets:
  "set (sends (trace (send_to_group P m E n g st))) =
     set (sends (trace st)) \<union> (if g_id g \<in> set E then {} else {(g_entity g, m)})"
  by (simp add: body_unfold split: send_result.split)

lemma body_send_count:
  "count_list (sends (trace (send_to_group P m E n g st))) x \<le>
     count_list (sends (trace st)) x + (if g_id g \<notin> set E \<and> x = (g_entity g, m) then 2 else 0)"
  by (simp add: body_unfold split: send_result.split)

lemma body_resolutions:
  "resolutions (trace (send_to_group P m E n g st)) = resolutions (trace st)"
  by (simp add: body_unfold split: send_result.split)

lemma body_round_headers:
  "round_headers (trace (send_to_group P m E n g st)) = round_headers (trace st)"
  by (simp add: body_unfold split: send_result.split)

lemma body_round_pauses:
  "round_pauses (trace (send_to_group P m E n g st)) = round_pauses (trace st)"
  by (simp add: body_unfold round_pauses_def pauses_append map_filter_append
      List.map_filter_simps split: send_result.split)

lemma body_sleeps:
  "length (sleeps (trace (send_to_group P m E n g st))) + length (flood_pauses (trace st)) =
     length (sleeps (trace st)) + length (flood_pauses (trace (send_to_group P m E n g st)))"
  by (simp add: body_unfold flood_pauses_def pauses_append map_filter_append
      List.map_filter_simps split: send_result.split)

lemma send_loop_append:
  "send_loop P m E n (xs @ ys) st = send_loop P m E n ys (send_loop P m E n xs st)"
  by (induction xs arbitrary: st) simp_all

lemma loop_counts:
  "successful_sends (send_loop P m E n gs st) + failed_sends (send_loop P m E n gs st) =
     successful_sends st + failed_sends st + length (filter (\<lambda>g. g_id g \<notin> set E) gs)"
  by (induction gs arbitrary: st) (simp_all add: body_counts)

lemma loop_sent:
  "successful_sends (send_loop P m E n gs st) + length (sent_titles (trace st)) =
     successful_sends st + length (sent_titles (trace (send_loop P m E n gs st)))"
proof (induction gs arbitrary: st)
  case Nil
  show ?case by simp
next
  case (Cons g gs)
  from Cons [of "send_to_group P m E n g st"] body_sent [of P m E n g st]
  show ?case by simp
qed

lemma loop_failed:
  "failed_sends (send_loop P m E n gs st) + length (failed_titles (trace st)) =
     failed_sends st + length (failed_titles (trace (send_loop P m E n gs st)))"
proof (induction gs arbitrary: st)
  case Nil
  show ?case by simp
next
  case (Cons g gs)
  from Cons [of "send_to_group P m E n g st"] body_failed [of P m E n g st]
  show ?case by simp
qed

lemma loop_skipped:
  "skipped_titles (trace (send_loop P m E n gs st)) =
     skipped_titles (trace st) @ map g_title (filter (\<lambda>g. g_id g \<in> set E) gs)"
  by (induction gs arbitrary: st) (simp_all add: body_skipped)

lemma loop_attempted:
  "attempted_titles (trace (send_loop P m E n gs st)) =
     attempted_titles (trace st) @ map g_title (filter (\<lambda>g. g_id g \<notin> set E) gs)"
  by (induction gs arbitrary: st) (simp_all add: body_attempted)

lemma loop_targets:
  "set (sends (trace (send_loop P m E n gs st))) =
     set (sends (trace st)) \<union> (\<lambda>g. (g_entity g, m)) ` set (filter (\<lambda>g. g_id g \<notin> set E) gs)"
  by (induction gs arbitrary: st) (auto simp: body_targets)

lemma loop_send_count:
  "count_list (sends (trace (send_loop P m E n gs st))) x \<le>
     count_list (sends (trace st)) x
       + 2 * length (filter (\<lambda>g. g_id g \<notin> set E \<and> x = (g_entity g, m)) gs)"
proof (induction gs arbitrary: st)
  case Nil
  show ?case by simp
next
  case (Cons g gs)
  from Cons [of "send_to_group P m E n g st"] body_send_count [of P m E n g st x]
  show ?case by (cases "g_id g \<notin> set E \<and> x = (g_entity g, m)") auto
qed

lemma loop_resolutions:
  "resolutions (trace (send_loop P m E n gs st)) = resolutions (trace st)"
  by (induction gs arbitrary: st) (simp_all add: body_resolutions)

lemma loop_round_headers:
  "round_headers (trace (send_loop P m E n gs st)) = round_headers (trace st)"
  by (induction gs arbitrary: st) (simp_all add: body_round_headers)

lemma loop_round_pauses:
  "round_pauses (trace (send_loop P m E n gs st)) = round_pauses (trace st)"
  by (induction gs arbitrary: st) (simp_all add: body_round_pauses)

lemma loop_sleeps:
  "length (sleeps (trace (send_loop P m E n gs st))) + length (flood_pauses (trace st)) =
     length (sleeps (trace st)) + length (flood_pauses (trace (send_loop P m E n gs st)))"
proof (induction gs arbitrary: st)
  case Nil
  show ?case by simp
next
  case (Cons g gs)
  from Cons [of "send_to_group P m E n g st"] body_sleeps [of P m E n g st]
  show ?case by simp
qed

subsection \<open>Catalog resolution\<close>

lemma scan_dialogs_append:
  "scan_dialogs ds gs = gs @ concat (map (\<lambda>d. scan_dialog d []) ds)"
proof (induction ds arbitrary: gs)
  case Nil
  show ?case by simp
next
  case (Cons d ds)
  have "scan_dialog d gs = gs @ scan_dialog d []"
    by (simp add: scan_dialog_def split: entity.split)
  with Cons show ?case by simp
qed

lemma get_all_groups_yields:
  "iter_dialogs P tr = Yields ds \<Longrightarrow>
   get_all_groups P tr =
     (Inr (concat (map (\<lambda>d. scan_dialog d []) ds)),
      tr @ [IterDialogs, Log (FoundGroups (length (concat (map (\<lambda>d. scan_dialog d []) ds))))])"
  by (simp add: get_all_groups_def Let_def scan_dialogs_append)

lemma get_all_groups_returns:
  "no_escape (iter_dialogs P tr) \<Longrightarrow> \<exists>groups. fst (get_all_groups P tr) = Inr groups"
  by (cases "iter_dialogs P tr") (simp_all add: get_all_groups_def Let_def)

lemma get_all_groups_escapes:
  "fst (get_all_groups P tr) = Inl e \<Longrightarrow> snd (get_all_groups P tr) = tr @ [IterDialogs]"
  by (cases "iter_dialogs P tr") (simp_all add: get_all_groups_def Let_def)

text \<open>
  C4. Catalog resolution classifies each dialog on its own, in the order of the
  enumeration: a Channel flagged megagroup becomes a supergroup whatever its
  broadcast flag is, a broadcast Channel that is not a megagroup adds nothing, and
  a Chat becomes a group. For the catalog G1 (Chat), G2 (megagroup), C1
  (broadcast channel, not a megagroup) the resolved destinations are G1 and G2.
\<close>

theorem classification_policy:
  "(iter_dialogs P tr = Yields ds \<longrightarrow>
      fst (get_all_groups P tr) = Inr (concat (map (\<lambda>d. scan_dialog d []) ds)))
   \<and> scan_dialog \<lparr>d_entity = Channel i True bc, d_title = t\<rparr> [] =
       [\<lparr>g_entity = Channel i True bc, g_title = t, g_id = i, g_type = ''supergroup''\<rparr>]
   \<and> scan_dialog \<lparr>d_entity = Channel i False True, d_title = t\<rparr> [] = []
   \<and> scan_dialog \<lparr>d_entity = Chat i, d_title = t\<rparr> [] =
       [\<lparr>g_entity = Chat i, g_title = t, g_id = i, g_type = ''group''\<rparr>]
   \<and> (iter_dialogs P tr =
         Yields [\<lparr>d_entity = Chat i1, d_title = t1\<rparr>,
                 \<lparr>d_entity = Channel i2 True b2, d_title = t2\<rparr>,
                 \<lparr>d_entity = Channel i3 False True, d_title = t3\<rparr>] \<longrightarrow>
       fst (get_all_groups P tr) =
         Inr [\<lparr>g_entity = Chat i1, g_title = t1, g_id = i1, g_type = ''group''\<rparr>,
              \<lparr>g_entity = Channel i2 True b2, g_title = t2, g_id = i2,
               g_type = ''supergroup''\<rparr>])"
proof -
  have a: "iter_dialogs P tr = Yields ds \<longrightarrow>
      fst (get_all_groups P tr) = Inr (concat (map (\<lambda>d. scan_dialog d []) ds))" for ds
    by (simp add: get_all_groups_yields)
  show ?thesis
    using a by (auto simp: scan_dialog_def)
qed

theorem classification_policy_witness:
  "iter_dialogs scenario_a [] =
     Yields [\<lparr>d_entity = Chat 1, d_title = ''G1''\<rparr>,
             \<lparr>d_entity = Channel 2 True False, d_title = ''G2''\<rparr>,
             \<lparr>d_entity = Channel 3 False True, d_title = ''C1''\<rparr>]
   \<and> fst (get_all_groups scenario_a []) =
       Inr [\<lparr>g_entity = Chat 1, g_title = ''G1'', g_id = 1, g_type = ''group''\<rparr>,
            \<lparr>g_entity = Channel 2 True False, g_title = ''G2'', g_id = 2,
             g_type = ''supergroup''\<rparr>]"
  using classification_policy [of scenario_a "[]" _ 0 False "''x''" 1 "''G1''" 2 False "''G2''" 3 "''C1''"]
  by (simp add: scenario_a_def)

text \<open>
  C5, as the claim states it, fails: when the task is cancelled while the dialogs
  are enumerated, what is raised is not an \<open>Exception\<close>; line 70 does not catch it
  and it leaves \<open>get_all_groups\<close> instead of an empty list being returned.
\<close>

theorem enumeration_any_exception_counterexample:
  "iter_dialogs cancelled_enumeration [] =
     YieldsThenEscapes [\<lparr>d_entity = Chat 1, d_title = ''G1''\<rparr>] CancelledError
   \<and> get_all_groups cancelled_enumeration [] = (Inl CancelledError, [IterDialogs])
   \<and> fst (get_all_groups cancelled_enumeration []) \<noteq> Inr []"
  by (simp add: get_all_groups_def cancelled_enumeration_def)

text \<open>
  C5, amended. When the enumeration of the dialogs raises an \<open>Exception\<close>,
  \<open>get_all_groups\<close> returns the empty list (and logs the error) and nothing is
  raised to the caller. When it raises outside the \<open>Exception\<close> hierarchy, that
  leaves the method and nothing is logged.
\<close>

theorem enumeration_failure_returns_empty:
  "(iter_dialogs P tr = YieldsThenRaises ds \<longrightarrow>
      get_all_groups P tr = (Inr [], tr @ [IterDialogs, Log ErrorGettingGroups]))
   \<and> (iter_dialogs P tr = YieldsThenEscapes ds e \<longrightarrow>
      get_all_groups P tr = (Inl e, tr @ [IterDialogs]))"
  by (simp add: get_all_groups_def)

theorem enumeration_failure_returns_empty_witness:
  "iter_dialogs failing_enumeration [] =
     YieldsThenRaises [\<lparr>d_entity = Chat 1, d_title = ''G1''\<rparr>]
   \<and> get_all_groups failing_enumeration [] = (Inr [], [IterDialogs, Log ErrorGettingGroups])
   \<and> iter_dialogs cancelled_enumeration [] =
       YieldsThenEscapes [\<lparr>d_entity = Chat 1, d_title = ''G1''\<rparr>] CancelledError
   \<and> get_all_groups cancelled_enumeration [] = (Inl CancelledError, [IterDialogs])"
  using enumeration_failure_returns_empty
          [of failing_enumeration "[]" "[\<lparr>d_entity = Chat 1, d_title = ''G1''\<rparr>]"]
        enumeration_failure_returns_empty
          [of cancelled_enumeration "[]" "[\<lparr>d_entity = Chat 1, d_title = ''G1''\<rparr>]"
              CancelledError]
  by (simp add: failing_enumeration_def cancelled_enumeration_def)

text \<open>
  C9. A dialog whose entity is a Channel with megagroup and broadcast both false
  is in the resolved catalog, with type channel.
\<close>

theorem plain_channel_included:
  "iter_dialogs P tr = Yields ds \<Longrightarrow> d \<in> set ds \<Longrightarrow> d_entity d = Channel i False False \<Longrightarrow>
   \<exists>groups. fst (get_all_groups P tr) = Inr groups
     \<and> \<lparr>g_entity = Channel i False False, g_title = d_title d, g_id = i, g_type = ''channel''\<rparr>
         \<in> set groups"
proof -
  assume y: "iter_dialogs P tr = Yields ds" and d: "d \<in> set ds"
    and e: "d_entity d = Channel i False False"
  have "scan_dialog d [] =
      [\<lparr>g_entity = Channel i False False, g_title = d_title d, g_id = i, g_type = ''channel''\<rparr>]"
    by (simp add: scan_dialog_def e)
  with d show ?thesis
    by (auto simp: get_all_groups_yields [OF y] intro!: bexI [of _ d])
qed

theorem plain_channel_included_witness:
  "fst (get_all_groups plain_channel []) =
     Inr [\<lparr>g_entity = Channel 7 False False, g_title = ''N'', g_id = 7, g_type = ''channel''\<rparr>]"
proof -
  from plain_channel_included
          [of plain_channel "[]" "[\<lparr>d_entity = Channel 7 False False, d_title = ''N''\<rparr>]"
              "\<lparr>d_entity = Channel 7 False False, d_title = ''N''\<rparr>" 7]
  have "\<exists>groups. fst (get_all_groups plain_channel []) = Inr groups"
    by (auto simp: plain_channel_def)
  then show ?thesis
    by (auto simp: get_all_groups_def scan_dialog_def plain_channel_def)
qed

subsection \<open>One dispatch pass\<close>

lemma round_pauses_log [simp]:
  "round_pauses (tr @ [IterDialogs]) = round_pauses tr"
  "round_pauses (tr @ [IterDialogs, Log l]) = round_pauses tr"
  "round_pauses (tr @ [Log l]) = round_pauses tr"
  "round_pauses (tr @ [Log l, Log l']) = round_pauses tr"
  by (simp_all add: round_pauses_def pauses_append map_filter_append List.map_filter_simps)

lemma flood_pauses_log [simp]:
  "flood_pauses (tr @ [IterDialogs]) = flood_pauses tr"
  "flood_pauses (tr @ [IterDialogs, Log l]) = flood_pauses tr"
  "flood_pauses (tr @ [Log l]) = flood_pauses tr"
  "flood_pauses (tr @ [Log l, Log l']) = flood_pauses tr"
  by (simp_all add: flood_pauses_def pauses_append map_filter_append List.map_filter_simps)

lemma resolved:
  "sent_titles (snd (get_all_groups P tr)) = sent_titles tr"
  "failed_titles (snd (get_all_groups P tr)) = failed_titles tr"
  "skipped_titles (snd (get_all_groups P tr)) = skipped_titles tr"
  "attempted_titles (snd (get_all_groups P tr)) = attempted_titles tr"
  "round_headers (snd (get_all_groups P tr)) = round_headers tr"
  "sends (snd (get_all_groups P tr)) = sends tr"
  "sleeps (snd (get_all_groups P tr)) = sleeps tr"
  "resolutions (snd (get_all_groups P tr)) = Suc (resolutions tr)"
  "round_pauses (snd (get_all_groups P tr)) = round_pauses tr"
  "flood_pauses (snd (get_all_groups P tr)) = flood_pauses tr"
  by (simp_all add: get_all_groups_def Let_def split: enum_result.split)

text \<open>The part of a pass after the catalog is resolved.\<close>

lemma dispatch_counts:
  "fst (fst (dispatch_groups P m E groups tr)) + snd (fst (dispatch_groups P m E groups tr)) =
     length (filter (\<lambda>g. g_id g \<notin> set E) groups)"
  by (simp add: dispatch_groups_def Let_def loop_counts)

lemma dispatch_sent:
  "length (sent_titles (snd (dispatch_groups P m E groups tr))) =
     length (sent_titles tr) + fst (fst (dispatch_groups P m E groups tr))"
  using loop_sent [of P m E "length groups" groups
      "\<lparr>successful_sends = 0, failed_sends = 0, trace = tr @ [Log (SendingTo (length groups))]\<rparr>"]
  by (simp add: dispatch_groups_def Let_def)

lemma dispatch_failed:
  "length (failed_titles (snd (dispatch_groups P m E groups tr))) =
     length (failed_titles tr) + snd (fst (dispatch_groups P m E groups tr))"
  using loop_failed [of P m E "length groups" groups
      "\<lparr>successful_sends = 0, failed_sends = 0, trace = tr @ [Log (SendingTo (length groups))]\<rparr>"]
  by (simp add: dispatch_groups_def Let_def)

lemma dispatch_skipped:
  "skipped_titles (snd (dispatch_groups P m E groups tr)) =
     skipped_titles tr @ map g_title (filter (\<lambda>g. g_id g \<in> set E) groups)"
  by (simp add: dispatch_groups_def Let_def loop_skipped)

lemma dispatch_attempted:
  "attempted_titles (snd (dispatch_groups P m E groups tr)) =
     attempted_titles tr @ map g_title (filter (\<lambda>g. g_id g \<notin> set E) groups)"
  by (simp add: dispatch_groups_def Let_def loop_attempted)

lemma dispatch_targets:
  "set (sends (snd (dispatch_groups P m E groups tr))) =
     set (sends tr) \<union> (\<lambda>g. (g_entity g, m)) ` set (filter (\<lambda>g. g_id g \<notin> set E) groups)"
  by (simp add: dispatch_groups_def Let_def loop_targets)

lemma dispatch_resolutions:
  "resolutions (snd (dispatch_groups P m E groups tr)) = resolutions tr"
  by (simp add: dispatch_groups_def Let_def loop_resolutions)

lemma dispatch_round_headers:
  "round_headers (snd (dispatch_groups P m E groups tr)) = round_headers tr"
  by (simp add: dispatch_groups_def Let_def loop_round_headers)

lemma dispatch_round_pauses:
  "round_pauses (snd (dispatch_groups P m E groups tr)) = round_pauses tr"
  by (simp add: dispatch_groups_def Let_def loop_round_pauses)

lemma dispatch_sleeps:
  "length (sleeps (snd (dispatch_groups P m E groups tr))) + length (flood_pauses tr) =
     length (sleeps tr) + length (flood_pauses (snd (dispatch_groups P m E groups tr)))"
  using loop_sleeps [of P m E "length groups" groups
      "\<lparr>successful_sends = 0, failed_sends = 0, trace = tr @ [Log (SendingTo (length groups))]\<rparr>"]
  by (simp add: dispatch_groups_def Let_def)

text \<open>The whole pass, by what the resolution gave.\<close>

lemma once_returns:
  "fst (get_all_groups P tr) = Inr groups \<Longrightarrow>
   send_to_all_groups_once P m ex tr =
     (Inr (fst (dispatch_groups P m (or_empty ex) groups (snd (get_all_groups P tr)))),
      snd (dispatch_groups P m (or_empty ex) groups (snd (get_all_groups P tr))))"
  by (simp add: send_to_all_groups_once_def Let_def case_prod_beta)

lemma once_escapes:
  "fst (get_all_groups P tr) = Inl e \<Longrightarrow>
   send_to_all_groups_once P m ex tr = (Inl e, tr @ [IterDialogs])"
  using get_all_groups_escapes [of P tr e]
  by (simp add: send_to_all_groups_once_def Let_def case_prod_beta)

lemma once_resolutions:
  "resolutions (snd (send_to_all_groups_once P m ex tr)) = Suc (resolutions tr)"
  by (cases "fst (get_all_groups P tr)")
     (simp_all add: once_returns once_escapes dispatch_resolutions resolved)

lemma once_round_headers:
  "round_headers (snd (send_to_all_groups_once P m ex tr)) = round_headers tr"
  by (cases "fst (get_all_groups P tr)")
     (simp_all add: once_returns once_escapes dispatch_round_headers resolved)

lemma once_round_pauses:
  "round_pauses (snd (send_to_all_groups_once P m ex tr)) = round_pauses tr"
  by (cases "fst (get_all_groups P tr)")
     (simp_all add: once_returns once_escapes dispatch_round_pauses resolved)

lemma once_sleeps:
  "length (sleeps (snd (send_to_all_groups_once P m ex tr))) + length (flood_pauses tr) =
     length (sleeps tr) + length (flood_pauses (snd (send_to_all_groups_once P m ex tr)))"
proof (cases "fst (get_all_groups P tr)")
  case (Inl e)
  then show ?thesis
    by (simp add: once_escapes)
next
  case (Inr groups)
  with dispatch_sleeps [of P m "or_empty ex" groups "snd (get_all_groups P tr)"]
  show ?thesis
    by (simp add: once_returns resolved)
qed

lemma once_accounts:
  assumes "fst (get_all_groups P tr) = Inr groups"
  shows "\<exists>s f. fst (send_to_all_groups_once P m ex tr) = Inr (s, f)
     \<and> s + f = length (filter (\<lambda>g. g_id g \<notin> set (or_empty ex)) groups)
     \<and> length (sent_titles (snd (send_to_all_groups_once P m ex tr))) = length (sent_titles tr) + s
     \<and> length (failed_titles (snd (send_to_all_groups_once P m ex tr))) =
         length (failed_titles tr) + f"
proof -
  let ?D = "dispatch_groups P m (or_empty ex) groups (snd (get_all_groups P tr))"
  have "fst (send_to_all_groups_once P m ex tr) = Inr (fst (fst ?D), snd (fst ?D))"
    by (simp add: once_returns [OF assms])
  moreover have "fst (fst ?D) + snd (fst ?D) =
      length (filter (\<lambda>g. g_id g \<notin> set (or_empty ex)) groups)"
    by (rule dispatch_counts)
  moreover have "length (sent_titles (snd (send_to_all_groups_once P m ex tr))) =
      length (sent_titles tr) + fst (fst ?D)"
    by (simp add: once_returns [OF assms] dispatch_sent resolved)
  moreover have "length (failed_titles (snd (send_to_all_groups_once P m ex tr))) =
      length (failed_titles tr) + snd (fst ?D)"
    by (simp add: once_returns [OF assms] dispatch_failed resolved)
  ultimately show ?thesis
    by blast
qed

lemma once_skipped:
  "fst (get_all_groups P tr) = Inr groups \<Longrightarrow>
   skipped_titles (snd (send_to_all_groups_once P m ex tr)) =
     skipped_titles tr @ map g_title (filter (\<lambda>g. g_id g \<in> set (or_empty ex)) groups)"
  by (simp add: once_returns dispatch_skipped resolved)

lemma once_attempted:
  "fst (get_all_groups P tr) = Inr groups \<Longrightarrow>
   attempted_titles (snd (send_to_all_groups_once P m ex tr)) =
     attempted_titles tr @ map g_title (filter (\<lambda>g. g_id g \<notin> set (or_empty ex)) groups)"
  by (simp add: once_returns dispatch_attempted resolved)

lemma once_targets:
  "fst (get_all_groups P tr) = Inr groups \<Longrightarrow>
   set (sends (snd (send_to_all_groups_once P m ex tr))) =
     set (sends tr) \<union>
       (\<lambda>g. (g_entity g, m)) ` set (filter (\<lambda>g. g_id g \<notin> set (or_empty ex)) groups)"
  by (simp add: once_returns dispatch_targets resolved)

text \<open>Scenario C, evaluated: the catalog, the loop and the whole pass with B excluded.\<close>

lemma scenario_c_catalog:
  "get_all_groups scenario_c [] =
     (Inr [group_of 1 ''A'', group_of 2 ''B'', group_of 3 ''C'', group_of 4 ''D''],
      [IterDialogs, Log (FoundGroups 4)])"
  by (simp add: get_all_groups_def scenario_c_def scan_dialog_def group_of_def)

lemma scenario_c_loop:
  "send_loop scenario_c ''hi'' [2] n
     [group_of 1 ''A'', group_of 2 ''B'', group_of 3 ''C'', group_of 4 ''D''] (start tr) =
   \<lparr>successful_sends = 1, failed_sends = 2,
    trace = tr @
      [SendMessage (Chat 1) ''hi'', Log (SentTo ''A'' 1 n),
       Log (Skipping ''B''),
       SendMessage (Chat 3) ''hi'', Log (NoPermission ''C''),
       SendMessage (Chat 4) ''hi'', Log (BannedIn ''D'')]\<rparr>"
  by (simp add: scenario_c_def send_to_group_def Let_def group_of_def start_def)

lemma scenario_c_pass:
  "send_to_all_groups_once scenario_c ''hi'' (Some [2]) [] =
     (Inr (1, 2),
      [IterDialogs, Log (FoundGroups 4), Log (SendingTo 4),
       SendMessage (Chat 1) ''hi'', Log (SentTo ''A'' 1 4),
       Log (Skipping ''B''),
       SendMessage (Chat 3) ''hi'', Log (NoPermission ''C''),
       SendMessage (Chat 4) ''hi'', Log (BannedIn ''D'')])"
proof -
  have "fst (get_all_groups scenario_c []) =
      Inr [group_of 1 ''A'', group_of 2 ''B'', group_of 3 ''C'', group_of 4 ''D'']"
    by (simp add: scenario_c_catalog)
  from once_returns [OF this] show ?thesis
    by (simp add: dispatch_groups_def scenario_c_catalog or_empty_def Let_def
        scenario_c_loop [unfolded start_def] del: send_loop.simps)
qed

text \<open>
  C3. When the send to a group that is not excluded raises a flood wait of \<open>w\<close>
  seconds, the loop body logs it, sleeps \<open>w + 1\<close>, and sends once more to the same
  entity. If that retry returns, the group counts as sent; if it raises anything
  (a second flood wait too), the group counts as failed and nothing more is sent
  to it. Over a whole pass, no destination receives more than two sends for each
  time it is in the catalog.
\<close>

theorem flood_wait_single_retry:
  "g_id g \<notin> set E \<Longrightarrow> send_message P (trace st) (g_entity g) m = FloodWaitError w \<Longrightarrow>
   (let call = SendMessage (g_entity g) m;
        tr1 = trace st @ [call, Log (FloodWaitFor w), Sleep (w + 1)];
        retry = send_message P tr1 (g_entity g) m
    in send_to_group P m E n g st =
         (if retry = Delivered
          then st\<lparr>successful_sends := successful_sends st + 1,
                  trace := tr1 @ [call, Log (SentAfterFloodWait (g_title g))]\<rparr>
          else st\<lparr>failed_sends := failed_sends st + 1,
                  trace := tr1 @ [call, Log (FailedAfterRetry (g_title g))]\<rparr>))
   \<and> count_list (sends (trace (send_loop P m E n gs st))) (g_entity g, m) \<le>
       count_list (sends (trace st)) (g_entity g, m)
         + 2 * length (filter (\<lambda>g'. g_id g' \<notin> set E \<and> (g_entity g, m) = (g_entity g', m)) gs)"
  using loop_send_count [of P m E n gs st "(g_entity g, m)"]
  by (simp add: send_to_group_def Let_def split: send_result.split)

theorem flood_wait_single_retry_witness:
  "send_to_group scenario_c ''hi'' [] 4 (group_of 2 ''B'') (start []) =
     \<lparr>successful_sends = 1, failed_sends = 0,
      trace = [SendMessage (Chat 2) ''hi'', Log (FloodWaitFor 5), Sleep 6,
               SendMessage (Chat 2) ''hi'', Log (SentAfterFloodWait ''B'')]\<rparr>
   \<and> send_to_group always_flooding ''hi'' [] 1 (group_of 2 ''B'') (start []) =
     \<lparr>successful_sends = 0, failed_sends = 1,
      trace = [SendMessage (Chat 2) ''hi'', Log (FloodWaitFor 5), Sleep 6,
               SendMessage (Chat 2) ''hi'', Log (FailedAfterRetry ''B'')]\<rparr>"
  using flood_wait_single_retry [of "group_of 2 ''B''" "[]" scenario_c "start []" "''hi''" 5 4 "[]"]
    flood_wait_single_retry [of "group_of 2 ''B''" "[]" always_flooding "start []" "''hi''" 5 1 "[]"]
  by (simp add: scenario_c_def always_flooding_def group_of_def start_def Let_def)

text \<open>
  C6. For one pass whose resolution gave the catalog \<open>groups\<close>, the returned
  success count plus the returned failure count plus the number of excluded
  groups is the length of \<open>groups\<close>. The success count is the number of groups
  logged as sent, the failure count the number logged as failed, and one skip is
  logged for each excluded group. The loop body changes neither count for an
  excluded group. (When the resolution is cut short by a raise outside the
  \<open>Exception\<close> hierarchy there is no catalog and no pass: that leaves the method
  with nothing sent or logged.)
\<close>

theorem dispatch_accounting:
  "(fst (get_all_groups P tr) = Inr groups \<longrightarrow>
      (\<exists>s f. fst (send_to_all_groups_once P m ex tr) = Inr (s, f)
         \<and> s + f + length (filter (\<lambda>g. g_id g \<in> set (or_empty ex)) groups) = length groups
         \<and> length (sent_titles (snd (send_to_all_groups_once P m ex tr))) =
             length (sent_titles tr) + s
         \<and> length (failed_titles (snd (send_to_all_groups_once P m ex tr))) =
             length (failed_titles tr) + f)
      \<and> length (skipped_titles (snd (send_to_all_groups_once P m ex tr))) =
          length (skipped_titles tr)
            + length (filter (\<lambda>g. g_id g \<in> set (or_empty ex)) groups))
   \<and> (fst (get_all_groups P tr) = Inl e \<longrightarrow>
        send_to_all_groups_once P m ex tr = (Inl e, tr @ [IterDialogs]))
   \<and> (g_id g \<in> set E \<longrightarrow>
        successful_sends (send_to_group P m E n g st) = successful_sends st
        \<and> failed_sends (send_to_group P m E n g st) = failed_sends st)"
proof -
  have p: "length (filter (\<lambda>g. g_id g \<notin> set (or_empty ex)) groups)
        + length (filter (\<lambda>g. g_id g \<in> set (or_empty ex)) groups) = length groups"
    using sum_length_filter_compl [of "\<lambda>g. g_id g \<in> set (or_empty ex)" groups]
    by simp
  have a: "\<exists>s f. fst (send_to_all_groups_once P m ex tr) = Inr (s, f)
         \<and> s + f + length (filter (\<lambda>g. g_id g \<in> set (or_empty ex)) groups) = length groups
         \<and> length (sent_titles (snd (send_to_all_groups_once P m ex tr))) =
             length (sent_titles tr) + s
         \<and> length (failed_titles (snd (send_to_all_groups_once P m ex tr))) =
             length (failed_titles tr) + f"
    if r: "fst (get_all_groups P tr) = Inr groups"
  proof -
    from once_accounts [OF r, of m ex] obtain s f where
      "fst (send_to_all_groups_once P m ex tr) = Inr (s, f)"
      "s + f = length (filter (\<lambda>g. g_id g \<notin> set (or_empty ex)) groups)"
      "length (sent_titles (snd (send_to_all_groups_once P m ex tr))) = length (sent_titles tr) + s"
      "length (failed_titles (snd (send_to_all_groups_once P m ex tr))) =
         length (failed_titles tr) + f"
      by blast
    with p show ?thesis
      by auto
  qed
  have b: "g_id g \<in> set E \<longrightarrow>
        successful_sends (send_to_group P m E n g st) = successful_sends st
        \<and> failed_sends (send_to_group P m E n g st) = failed_sends st"
    by (simp add: send_to_group_def)
  have c: "length (skipped_titles (snd (send_to_all_groups_once P m ex tr))) =
          length (skipped_titles tr)
            + length (filter (\<lambda>g. g_id g \<in> set (or_empty ex)) groups)"
    if "fst (get_all_groups P tr) = Inr groups"
    using that by (simp add: once_skipped)
  from a b c once_escapes [of P tr e m ex] show ?thesis
    by blast
qed

theorem dispatch_accounting_witness:
  "g_id (group_of 2 ''B'') \<in> set [2]
   \<and> fst (get_all_groups scenario_c []) =
       Inr [group_of 1 ''A'', group_of 2 ''B'', group_of 3 ''C'', group_of 4 ''D'']
   \<and> fst (send_to_all_groups_once scenario_c ''hi'' (Some [2]) []) = Inr (1, 2)
   \<and> length (filter (\<lambda>g. g_id g \<in> set (or_empty (Some [2])))
        [group_of 1 ''A'', group_of 2 ''B'', group_of 3 ''C'', group_of 4 ''D'']) = 1
   \<and> successful_sends (send_to_group scenario_c ''hi'' [2] 4 (group_of 2 ''B'') (start [])) = 0
   \<and> failed_sends (send_to_group scenario_c ''hi'' [2] 4 (group_of 2 ''B'') (start [])) = 0
   \<and> fst (get_all_groups cancelled_enumeration []) = Inl CancelledError
   \<and> send_to_all_groups_once cancelled_enumeration ''hi'' None [] =
       (Inl CancelledError, [IterDialogs])"
proof -
  note d = dispatch_accounting
             [where P = scenario_c and m = "''hi''" and ex = "Some [2]" and tr = "[]"
                and g = "group_of 2 ''B''" and E = "[2]" and n = 4 and st = "start []"
                and groups = "[group_of 1 ''A'', group_of 2 ''B'', group_of 3 ''C'',
                               group_of 4 ''D'']"]
  have h: "g_id (group_of 2 ''B'') \<in> set [2]"
    by (simp add: group_of_def)
  have r: "fst (get_all_groups scenario_c []) =
       Inr [group_of 1 ''A'', group_of 2 ''B'', group_of 3 ''C'', group_of 4 ''D'']"
    by (simp add: scenario_c_catalog)
  from d r
  have q: "\<exists>s f. fst (send_to_all_groups_once scenario_c ''hi'' (Some [2]) []) = Inr (s, f)"
    by blast
  from d h
  have c: "successful_sends (send_to_group scenario_c ''hi'' [2] 4 (group_of 2 ''B'') (start [])) =
             successful_sends (start [])
           \<and> failed_sends (send_to_group scenario_c ''hi'' [2] 4 (group_of 2 ''B'') (start [])) =
             failed_sends (start [])"
    by blast
  have e: "length (filter (\<lambda>g. g_id g \<in> set (or_empty (Some [2])))
        [group_of 1 ''A'', group_of 2 ''B'', group_of 3 ''C'', group_of 4 ''D'']) = 1"
    by (simp add: group_of_def or_empty_def)
  have k: "fst (get_all_groups cancelled_enumeration []) = Inl CancelledError"
    by (simp add: get_all_groups_def cancelled_enumeration_def)
  from dispatch_accounting
         [where P = cancelled_enumeration and m = "''hi''" and ex = None and tr = "[]"
            and e = CancelledError] k
  have x: "send_to_all_groups_once cancelled_enumeration ''hi'' None [] =
       (Inl CancelledError, [] @ [IterDialogs])"
    by blast
  show ?thesis
    using c h e k x q by (simp add: scenario_c_pass scenario_c_catalog start_def)
qed

text \<open>
  C7. For a pass whose resolution gave the catalog \<open>groups\<close>, the loop behaves as
  the filter of the spec followed by the sends: the accepted and the skipped
  groups are together the catalog, they share no group, each is in catalog order;
  the pass attempts exactly the accepted groups in order, logs a skip for exactly
  the skipped ones in order, and calls \<open>send_message\<close> only for accepted groups.
  For an excluded group the loop body calls nothing and changes no count; it only
  writes the skip to the log.
\<close>

theorem exclusion_partition:
  "(fst (get_all_groups P tr) = Inr groups \<longrightarrow>
     (let (accepted, skipped) = spec_exclusion_filter groups (or_empty ex) in
        set accepted \<union> set skipped = set groups
        \<and> set accepted \<inter> set skipped = {}
        \<and> subseq accepted groups
        \<and> subseq skipped groups
        \<and> attempted_titles (snd (send_to_all_groups_once P m ex tr)) =
            attempted_titles tr @ map g_title accepted
        \<and> skipped_titles (snd (send_to_all_groups_once P m ex tr)) =
            skipped_titles tr @ map g_title skipped
        \<and> set (sends (snd (send_to_all_groups_once P m ex tr))) =
            set (sends tr) \<union> (\<lambda>g. (g_entity g, m)) ` set accepted))
   \<and> (g_id g \<in> set E \<longrightarrow>
        send_to_group P m E n g st = st\<lparr>trace := trace st @ [Log (Skipping (g_title g))]\<rparr>)"
proof -
  have a: "set (filter (\<lambda>g. g_id g \<notin> set X) C) \<union> set (filter (\<lambda>g. g_id g \<in> set X) C) = set C"
    for X and C :: "group list"
    by auto
  have b: "set (filter (\<lambda>g. g_id g \<notin> set X) C) \<inter> set (filter (\<lambda>g. g_id g \<in> set X) C) = {}"
    for X and C :: "group list"
    by auto
  have c: "g_id g \<in> set E \<longrightarrow>
        send_to_group P m E n g st = st\<lparr>trace := trace st @ [Log (Skipping (g_title g))]\<rparr>"
    by (simp add: send_to_group_def)
  show ?thesis
    using c
    by (simp add: spec_exclusion_filter_def a b once_attempted once_skipped once_targets
        del: set_filter)
qed

theorem exclusion_partition_witness:
  "g_id (group_of 2 ''B'') \<in> set [2]
   \<and> fst (get_all_groups scenario_c []) =
       Inr [group_of 1 ''A'', group_of 2 ''B'', group_of 3 ''C'', group_of 4 ''D'']
   \<and> spec_exclusion_filter
        [group_of 1 ''A'', group_of 2 ''B'', group_of 3 ''C'', group_of 4 ''D'']
        (or_empty (Some [2])) =
       ([group_of 1 ''A'', group_of 3 ''C'', group_of 4 ''D''], [group_of 2 ''B''])
   \<and> attempted_titles (snd (send_to_all_groups_once scenario_c ''hi'' (Some [2]) [])) =
       [''A'', ''C'', ''D'']
   \<and> skipped_titles (snd (send_to_all_groups_once scenario_c ''hi'' (Some [2]) [])) = [''B'']
   \<and> send_to_group scenario_c ''hi'' [2] 4 (group_of 2 ''B'') (start []) =
       \<lparr>successful_sends = 0, failed_sends = 0, trace = [Log (Skipping ''B'')]\<rparr>"
proof -
  note d = exclusion_partition
             [where P = scenario_c and tr = "[]" and ex = "Some [2]" and m = "''hi''"
                and g = "group_of 2 ''B''" and E = "[2]" and n = 4 and st = "start []"
                and groups = "[group_of 1 ''A'', group_of 2 ''B'', group_of 3 ''C'',
                               group_of 4 ''D'']"]
  have h: "g_id (group_of 2 ''B'') \<in> set [2]"
    by (simp add: group_of_def)
  have r: "fst (get_all_groups scenario_c []) =
       Inr [group_of 1 ''A'', group_of 2 ''B'', group_of 3 ''C'', group_of 4 ''D'']"
    by (simp add: scenario_c_catalog)
  note d1 = d [THEN conjunct1, rule_format, OF r]
  from d h
  have c: "send_to_group scenario_c ''hi'' [2] 4 (group_of 2 ''B'') (start []) =
             (start [])\<lparr>trace := trace (start []) @ [Log (Skipping (g_title (group_of 2 ''B'')))]\<rparr>"
    by blast
  have e: "spec_exclusion_filter
        [group_of 1 ''A'', group_of 2 ''B'', group_of 3 ''C'', group_of 4 ''D'']
        (or_empty (Some [2])) =
       ([group_of 1 ''A'', group_of 3 ''C'', group_of 4 ''D''], [group_of 2 ''B''])"
    by (simp add: spec_exclusion_filter_def group_of_def or_empty_def)
  from d1
  have t: "attempted_titles (snd (send_to_all_groups_once scenario_c ''hi'' (Some [2]) [])) =
       attempted_titles [] @
         map g_title [group_of 1 ''A'', group_of 3 ''C'', group_of 4 ''D'']"
    by (simp add: e)
  show ?thesis
    using c h e t by (simp add: scenario_c_pass scenario_c_catalog start_def group_of_def)
qed

text \<open>
  C8. When the send to a group that is not excluded raises a write-forbidden
  error, a banned error or any other exception, the loop body counts one failure,
  logs the matching message, sends nothing more to that group, and the loop goes
  on with the groups after it.
\<close>

theorem send_errors_do_not_abort:
  "g_id g \<notin> set E \<Longrightarrow> st1 = send_loop P m E n pre st \<Longrightarrow>
   send_message P (trace st1) (g_entity g) m = r \<Longrightarrow>
   r \<in> {ChatWriteForbiddenError, UserBannedInChannelError, OtherException} \<Longrightarrow>
   (let st2 = st1\<lparr>failed_sends := failed_sends st1 + 1,
                   trace := trace st1 @
                     [SendMessage (g_entity g) m,
                      Log (case r of ChatWriteForbiddenError \<Rightarrow> NoPermission (g_title g)
                                   | UserBannedInChannelError \<Rightarrow> BannedIn (g_title g)
                                   | _ \<Rightarrow> ErrorSending (g_title g))]\<rparr>
    in send_to_group P m E n g st1 = st2
       \<and> send_loop P m E n (pre @ g # post) st = send_loop P m E n post st2)"
  by (auto simp: send_loop_append send_to_group_def Let_def)

theorem send_errors_do_not_abort_witness:
  "send_message scenario_c (trace (send_loop scenario_c ''hi'' [] 4 [group_of 1 ''A''] (start [])))
       (g_entity (group_of 3 ''C'')) ''hi'' = ChatWriteForbiddenError
   \<and> send_loop scenario_c ''hi'' [] 4 [group_of 1 ''A'', group_of 3 ''C'', group_of 4 ''D''] (start []) =
       \<lparr>successful_sends = 1, failed_sends = 2,
        trace = [SendMessage (Chat 1) ''hi'', Log (SentTo ''A'' 1 4),
                 SendMessage (Chat 3) ''hi'', Log (NoPermission ''C''),
                 SendMessage (Chat 4) ''hi'', Log (BannedIn ''D'')]\<rparr>"
  using send_errors_do_not_abort
          [of "group_of 3 ''C''" "[]" _ scenario_c "''hi''" 4 "[group_of 1 ''A'']" "start []"
              ChatWriteForbiddenError "[group_of 4 ''D'']"]
  by (simp add: scenario_c_def send_to_group_def Let_def group_of_def start_def)

subsection \<open>The rounds\<close>

declare rounds_loop.simps [simp del]

lemma round_pauses_waiting [simp]:
  "round_pauses (tr @ [Log (WaitingNextRound d), Sleep k]) = round_pauses tr @ [k]"
  "flood_pauses (tr @ [Log (WaitingNextRound d), Sleep k]) = flood_pauses tr"
  "round_pauses (tr @ [Log l, Log (WaitingNextRound d), Sleep k]) = round_pauses tr @ [k]"
  "flood_pauses (tr @ [Log l, Log (WaitingNextRound d), Sleep k]) = flood_pauses tr"
  by (simp_all add: round_pauses_def flood_pauses_def pauses_append map_filter_append
      List.map_filter_simps)

lemma once_no_escape:
  assumes "no_escape (iter_dialogs P tr)"
  shows "\<exists>s f. fst (send_to_all_groups_once P m ex tr) = Inr (s, f)"
proof -
  from get_all_groups_returns [OF assms] obtain groups
    where "fst (get_all_groups P tr) = Inr groups"
    by blast
  from once_accounts [OF this, of m ex] show ?thesis
    by blast
qed

lemma once_returned:
  assumes "fst (send_to_all_groups_once P m ex tr) = Inr (s, f)"
  shows "\<exists>groups. fst (get_all_groups P tr) = Inr groups"
proof (cases "fst (get_all_groups P tr)")
  case (Inl e)
  from once_escapes [OF this, of m ex] assms show ?thesis
    by simp
next
  case (Inr groups)
  then show ?thesis
    by blast
qed

lemma once_sent:
  assumes "fst (send_to_all_groups_once P m ex tr) = Inr (s, f)"
  shows "length (sent_titles (snd (send_to_all_groups_once P m ex tr))) =
           length (sent_titles tr) + s"
    and "length (failed_titles (snd (send_to_all_groups_once P m ex tr))) =
           length (failed_titles tr) + f"
proof -
  from once_returned [OF assms] obtain groups
    where "fst (get_all_groups P tr) = Inr groups"
    by blast
  from once_accounts [OF this, of m ex] assms
  show "length (sent_titles (snd (send_to_all_groups_once P m ex tr))) =
           length (sent_titles tr) + s"
    and "length (failed_titles (snd (send_to_all_groups_once P m ex tr))) =
           length (failed_titles tr) + f"
    by auto
qed

lemma run_round_returns:
  "fst (send_to_all_groups_once P m ex (history rs @ [Log (RoundHeader i R)])) = Inr (s, f) \<Longrightarrow>
   run_round P m R d ex i rs =
     (None,
      \<lparr>total_success = total_success rs + s,
       total_failed = total_failed rs + f,
       history =
         (if i < R
          then snd (send_to_all_groups_once P m ex (history rs @ [Log (RoundHeader i R)])) @
                 [Log (RoundResults i s f), Log (WaitingNextRound d), Sleep d]
          else snd (send_to_all_groups_once P m ex (history rs @ [Log (RoundHeader i R)])) @
                 [Log (RoundResults i s f)])\<rparr>)"
  by (simp add: run_round_def Let_def case_prod_beta)

lemma run_round_escapes:
  "fst (send_to_all_groups_once P m ex (history rs @ [Log (RoundHeader i R)])) = Inl e \<Longrightarrow>
   run_round P m R d ex i rs =
     (Some e,
      rs\<lparr>history := snd (send_to_all_groups_once P m ex (history rs @ [Log (RoundHeader i R)]))\<rparr>)"
  by (simp add: run_round_def Let_def case_prod_beta)

text \<open>One round, when its enumeration does not escape.\<close>

lemma round_facts:
  assumes "no_escape (iter_dialogs P (history rs @ [Log (RoundHeader i R)]))"
  shows round_returns: "fst (run_round P m R d ex i rs) = None"
    and round_resolutions:
      "resolutions (history (snd (run_round P m R d ex i rs))) = Suc (resolutions (history rs))"
    and round_round_headers:
      "round_headers (history (snd (run_round P m R d ex i rs))) =
         round_headers (history rs) @ [(i, R)]"
    and round_round_pauses:
      "round_pauses (history (snd (run_round P m R d ex i rs))) =
         round_pauses (history rs) @ (if i < R then [d] else [])"
    and round_sleeps:
      "length (sleeps (history (snd (run_round P m R d ex i rs))))
         + length (flood_pauses (history rs)) =
       length (sleeps (history rs))
         + length (flood_pauses (history (snd (run_round P m R d ex i rs))))
         + (if i < R then 1 else 0)"
    and round_sent:
      "total_success (snd (run_round P m R d ex i rs)) + length (sent_titles (history rs)) =
         total_success rs + length (sent_titles (history (snd (run_round P m R d ex i rs))))"
    and round_failed:
      "total_failed (snd (run_round P m R d ex i rs)) + length (failed_titles (history rs)) =
         total_failed rs + length (failed_titles (history (snd (run_round P m R d ex i rs))))"
    and round_last:
      "\<not> i < R \<Longrightarrow>
       \<exists>pre s f. history (snd (run_round P m R d ex i rs)) = pre @ [Log (RoundResults i s f)]"
proof -
  let ?tr0 = "history rs @ [Log (RoundHeader i R)]"
  from once_no_escape [OF assms, of m ex] obtain s f
    where r: "fst (send_to_all_groups_once P m ex ?tr0) = Inr (s, f)"
    by blast
  note u = run_round_returns [OF r, of d]
  show "fst (run_round P m R d ex i rs) = None"
    by (simp add: u)
  show "resolutions (history (snd (run_round P m R d ex i rs))) = Suc (resolutions (history rs))"
    by (simp add: u once_resolutions)
  show "round_headers (history (snd (run_round P m R d ex i rs))) =
         round_headers (history rs) @ [(i, R)]"
    by (simp add: u once_round_headers)
  show "round_pauses (history (snd (run_round P m R d ex i rs))) =
         round_pauses (history rs) @ (if i < R then [d] else [])"
    by (simp add: u once_round_pauses)
  show "length (sleeps (history (snd (run_round P m R d ex i rs))))
         + length (flood_pauses (history rs)) =
       length (sleeps (history rs))
         + length (flood_pauses (history (snd (run_round P m R d ex i rs))))
         + (if i < R then 1 else 0)"
    using once_sleeps [of P m ex ?tr0] by (simp add: u)
  show "total_success (snd (run_round P m R d ex i rs)) + length (sent_titles (history rs)) =
         total_success rs + length (sent_titles (history (snd (run_round P m R d ex i rs))))"
    by (simp add: u once_sent(1) [OF r])
  show "total_failed (snd (run_round P m R d ex i rs)) + length (failed_titles (history rs)) =
         total_failed rs + length (failed_titles (history (snd (run_round P m R d ex i rs))))"
    by (simp add: u once_sent(2) [OF r])
  show "\<exists>pre s f. history (snd (run_round P m R d ex i rs)) = pre @ [Log (RoundResults i s f)]"
    if "\<not> i < R"
    using that by (simp add: u)
qed

text \<open>One round, by the catalog its resolution gave: the filter and the dispatch.\<close>

lemma round_dispatch:
  assumes "fst (get_all_groups P (history rs @ [Log (RoundHeader i R)])) = Inr groups"
  shows "attempted_titles (history (snd (run_round P m R d ex i rs))) =
           attempted_titles (history rs) @
             map g_title (filter (\<lambda>g. g_id g \<notin> set (or_empty ex)) groups)"
    and "skipped_titles (history (snd (run_round P m R d ex i rs))) =
           skipped_titles (history rs) @
             map g_title (filter (\<lambda>g. g_id g \<in> set (or_empty ex)) groups)"
    and "set (sends (history (snd (run_round P m R d ex i rs)))) =
           set (sends (history rs)) \<union>
             (\<lambda>g. (g_entity g, m)) ` set (filter (\<lambda>g. g_id g \<notin> set (or_empty ex)) groups)"
    and "total_success (snd (run_round P m R d ex i rs))
           + total_failed (snd (run_round P m R d ex i rs)) =
         total_success rs + total_failed rs
           + length (filter (\<lambda>g. g_id g \<notin> set (or_empty ex)) groups)"
proof -
  let ?tr0 = "history rs @ [Log (RoundHeader i R)]"
  from once_accounts [OF assms, of m ex] obtain s f
    where r: "fst (send_to_all_groups_once P m ex ?tr0) = Inr (s, f)"
      and c: "s + f = length (filter (\<lambda>g. g_id g \<notin> set (or_empty ex)) groups)"
    by blast
  note u = run_round_returns [OF r, of d]
  show "attempted_titles (history (snd (run_round P m R d ex i rs))) =
           attempted_titles (history rs) @
             map g_title (filter (\<lambda>g. g_id g \<notin> set (or_empty ex)) groups)"
    by (simp add: u once_attempted [OF assms])
  show "skipped_titles (history (snd (run_round P m R d ex i rs))) =
           skipped_titles (history rs) @
             map g_title (filter (\<lambda>g. g_id g \<in> set (or_empty ex)) groups)"
    by (simp add: u once_skipped [OF assms])
  show "set (sends (history (snd (run_round P m R d ex i rs)))) =
           set (sends (history rs)) \<union>
             (\<lambda>g. (g_entity g, m)) ` set (filter (\<lambda>g. g_id g \<notin> set (or_empty ex)) groups)"
    by (simp add: u once_targets [OF assms])
  show "total_success (snd (run_round P m R d ex i rs))
           + total_failed (snd (run_round P m R d ex i rs)) =
         total_success rs + total_failed rs
           + length (filter (\<lambda>g. g_id g \<notin> set (or_empty ex)) groups)"
    using c by (simp add: u)
qed

text \<open>The loop, for a provider whose enumerations never escape.\<close>

lemma rounds_loop_step:
  assumes "\<forall>h. no_escape (iter_dialogs P h)"
  shows "rounds_loop P m R d ex i rs =
           (if i < R + 1
            then rounds_loop P m R d ex (i + 1) (snd (run_round P m R d ex i rs))
            else (None, rs))"
proof -
  from assms have "fst (run_round P m R d ex i rs) = None"
    by (simp add: round_returns)
  then show ?thesis
    by (subst rounds_loop.simps) (simp add: case_prod_beta)
qed

lemma rounds_fold:
  assumes "\<forall>h. no_escape (iter_dialogs P h)"
  shows "rounds_loop P m R d ex i rs =
           (None, foldl (\<lambda>rs i. snd (run_round P m R d ex i rs)) rs [i..R])"
proof (induction "nat (R + 1 - i)" arbitrary: i rs)
  case 0
  then have "\<not> i < R + 1" and "[i..R] = []"
    by simp_all
  then show ?case
    by (subst rounds_loop_step [OF assms]) simp
next
  case (Suc n)
  then have lt: "i < R + 1" and n: "n = nat (R + 1 - (i + 1))"
    by simp_all
  from lt have "[i..R] = i # [i + 1..R]"
    by (simp add: upto_rec1)
  with Suc(1) [OF n] lt show ?case
    by (subst rounds_loop_step [OF assms]) simp
qed

lemma rounds_facts:
  assumes "\<forall>h. no_escape (iter_dialogs P h)"
  shows rounds_returns: "fst (rounds_loop P m R d ex i rs) = None"
    and rounds_resolutions:
      "resolutions (history (snd (rounds_loop P m R d ex i rs))) =
         resolutions (history rs) + nat (R + 1 - i)"
    and rounds_round_headers:
      "round_headers (history (snd (rounds_loop P m R d ex i rs))) =
         round_headers (history rs) @ map (\<lambda>k. (k, R)) [i..R]"
    and rounds_round_pauses:
      "round_pauses (history (snd (rounds_loop P m R d ex i rs))) =
         round_pauses (history rs) @ replicate (nat (R - i)) d"
    and rounds_sleeps:
      "length (sleeps (history (snd (rounds_loop P m R d ex i rs))))
         + length (flood_pauses (history rs)) =
       length (sleeps (history rs))
         + length (flood_pauses (history (snd (rounds_loop P m R d ex i rs))))
         + nat (R - i)"
    and rounds_sent:
      "total_success (snd (rounds_loop P m R d ex i rs)) + length (sent_titles (history rs)) =
         total_success rs + length (sent_titles (history (snd (rounds_loop P m R d ex i rs))))"
    and rounds_failed:
      "total_failed (snd (rounds_loop P m R d ex i rs)) + length (failed_titles (history rs)) =
         total_failed rs + length (failed_titles (history (snd (rounds_loop P m R d ex i rs))))"
proof -
  note step = rounds_loop_step [OF assms]
  from assms have ne: "no_escape (iter_dialogs P h)" for h
    by simp
  show "fst (rounds_loop P m R d ex i rs) = None"
    by (simp add: rounds_fold [OF assms])
  show "resolutions (history (snd (rounds_loop P m R d ex i rs))) =
         resolutions (history rs) + nat (R + 1 - i)"
  proof (induction "nat (R + 1 - i)" arbitrary: i rs)
    case 0
    then show ?case
      by (subst step) simp
  next
    case (Suc n)
    then have lt: "i < R + 1" and n: "n = nat (R + 1 - (i + 1))"
      by simp_all
    from Suc(1) [OF n, of "snd (run_round P m R d ex i rs)"] lt Suc(2) show ?case
      by (subst step) (simp add: round_resolutions [OF ne])
  qed
  show "round_headers (history (snd (rounds_loop P m R d ex i rs))) =
         round_headers (history rs) @ map (\<lambda>k. (k, R)) [i..R]"
  proof (induction "nat (R + 1 - i)" arbitrary: i rs)
    case 0
    then have "\<not> i < R + 1" and "[i..R] = []"
      by simp_all
    then show ?case
      by (subst step) simp
  next
    case (Suc n)
    then have lt: "i < R + 1" and n: "n = nat (R + 1 - (i + 1))"
      by simp_all
    from lt have "[i..R] = i # [i + 1..R]"
      by (simp add: upto_rec1)
    with Suc(1) [OF n, of "snd (run_round P m R d ex i rs)"] lt show ?case
      by (subst step) (simp add: round_round_headers [OF ne])
  qed
  show "round_pauses (history (snd (rounds_loop P m R d ex i rs))) =
         round_pauses (history rs) @ replicate (nat (R - i)) d"
  proof (induction "nat (R + 1 - i)" arbitrary: i rs)
    case 0
    then show ?case
      by (subst step) simp
  next
    case (Suc n)
    then have lt: "i < R + 1" and n: "n = nat (R + 1 - (i + 1))"
      by simp_all
    have "replicate (nat (R - i)) d = (if i < R then [d] else []) @ replicate (nat (R - (i + 1))) d"
    proof (cases "i < R")
      case True
      then have "nat (R - i) = Suc (nat (R - (i + 1)))"
        by simp
      with True show ?thesis
        by simp
    next
      case False
      then show ?thesis
        by simp
    qed
    with Suc(1) [OF n, of "snd (run_round P m R d ex i rs)"] lt show ?case
      by (subst step) (simp add: round_round_pauses [OF ne])
  qed
  show "length (sleeps (history (snd (rounds_loop P m R d ex i rs))))
         + length (flood_pauses (history rs)) =
       length (sleeps (history rs))
         + length (flood_pauses (history (snd (rounds_loop P m R d ex i rs))))
         + nat (R - i)"
  proof (induction "nat (R + 1 - i)" arbitrary: i rs)
    case 0
    then show ?case
      by (subst (1 2) step) simp
  next
    case (Suc n)
    then have lt: "i < R + 1" and n: "n = nat (R + 1 - (i + 1))"
      by simp_all
    have "nat (R - i) = nat (R - (i + 1)) + (if i < R then 1 else 0)"
      using lt by (cases "i < R") (simp_all add: nat_eq_iff)
    with Suc(1) [OF n, of "snd (run_round P m R d ex i rs)"]
      round_sleeps [OF ne, where rs = rs and i = i and R = R and m = m and d = d and ex = ex] lt
    show ?case
      by (subst (1 2) step) simp
  qed
  show "total_success (snd (rounds_loop P m R d ex i rs)) + length (sent_titles (history rs)) =
         total_success rs + length (sent_titles (history (snd (rounds_loop P m R d ex i rs))))"
  proof (induction "nat (R + 1 - i)" arbitrary: i rs)
    case 0
    then show ?case
      by (subst (1 2) step) simp
  next
    case (Suc n)
    then have lt: "i < R + 1" and n: "n = nat (R + 1 - (i + 1))"
      by simp_all
    with Suc(1) [OF n, of "snd (run_round P m R d ex i rs)"]
      round_sent [OF ne, where rs = rs and i = i and R = R and m = m and d = d and ex = ex]
    show ?case
      by (subst (1 2) step) simp
  qed
  show "total_failed (snd (rounds_loop P m R d ex i rs)) + length (failed_titles (history rs)) =
         total_failed rs + length (failed_titles (history (snd (rounds_loop P m R d ex i rs))))"
  proof (induction "nat (R + 1 - i)" arbitrary: i rs)
    case 0
    then show ?case
      by (subst (1 2) step) simp
  next
    case (Suc n)
    then have lt: "i < R + 1" and n: "n = nat (R + 1 - (i + 1))"
      by simp_all
    with Suc(1) [OF n, of "snd (run_round P m R d ex i rs)"]
      round_failed [OF ne, where rs = rs and i = i and R = R and m = m and d = d and ex = ex]
    show ?case
      by (subst (1 2) step) simp
  qed
qed

lemma rounds_last:
  assumes "\<forall>h. no_escape (iter_dialogs P h)" and "i \<le> R"
  shows "\<exists>pre s f. history (snd (rounds_loop P m R d ex i rs)) = pre @ [Log (RoundResults R s f)]"
  using \<open>i \<le> R\<close>
proof (induction "nat (R + 1 - i)" arbitrary: i rs)
  case 0
  then show ?case
    by simp
next
  case (Suc n)
  note step = rounds_loop_step [OF assms(1)]
  from assms(1) have ne: "no_escape (iter_dialogs P h)" for h
    by simp
  from Suc have n: "n = nat (R + 1 - (i + 1))"
    by simp
  show ?case
  proof (cases "i < R")
    case True
    with Suc(1) [OF n, of "snd (run_round P m R d ex i rs)"] show ?thesis
      by (subst step) simp
  next
    case False
    with \<open>i \<le> R\<close> have eq: "i = R"
      by simp
    have "rounds_loop P m R d ex R rs = (None, snd (run_round P m R d ex R rs))"
      by (subst step, subst step) simp
    with round_last [OF ne, where rs = rs and i = R and R = R and m = m and d = d and ex = ex] eq show ?thesis
      by simp
  qed
qed

subsection \<open>The whole broadcast\<close>

lemma broadcast_returns:
  assumes "\<forall>h. no_escape (iter_dialogs P h)"
  shows "broadcast_with_delay P m R d ex tr =
     (Inr None,
      history (snd (rounds_loop P m R d ex 1
                 \<lparr>total_success = 0, total_failed = 0,
                  history = tr @ [Log (StartingBroadcast R d)]\<rparr>)) @
        [Log FinalSummary,
         Log (TotalSent (total_success (snd (rounds_loop P m R d ex 1
                 \<lparr>total_success = 0, total_failed = 0,
                  history = tr @ [Log (StartingBroadcast R d)]\<rparr>)))),
         Log (TotalFailed (total_failed (snd (rounds_loop P m R d ex 1
                 \<lparr>total_success = 0, total_failed = 0,
                  history = tr @ [Log (StartingBroadcast R d)]\<rparr>)))),
         Log (RoundsCompleted R)])"
  using rounds_returns [OF assms, of m R d ex 1
      "\<lparr>total_success = 0, total_failed = 0, history = tr @ [Log (StartingBroadcast R d)]\<rparr>"]
  by (simp add: broadcast_with_delay_def case_prod_beta split: option.split)

lemma broadcast_never_returns_a_summary:
  "fst (broadcast_with_delay P m R d ex tr) \<noteq> Inr (Some s)"
  by (simp add: broadcast_with_delay_def case_prod_beta split: option.split)

lemma pauses_final [simp]:
  "round_pauses (tr @ [Log a, Log b, Log c, Log e]) = round_pauses tr"
  "flood_pauses (tr @ [Log a, Log b, Log c, Log e]) = flood_pauses tr"
  by (simp_all add: round_pauses_def flood_pauses_def pauses_append map_filter_append
      List.map_filter_simps)

text \<open>Scenarios D and A, evaluated.\<close>

lemma scenario_d_never_escapes:
  "\<forall>h. no_escape (iter_dialogs scenario_d h)"
  by (simp add: scenario_d_def)

lemma scenario_d_catalog:
  "get_all_groups scenario_d tr =
     (Inr [group_of 1 ''G1''], tr @ [IterDialogs, Log (FoundGroups 1)])"
  by (simp add: get_all_groups_def scenario_d_def scan_dialog_def group_of_def)

lemma scenario_d_pass:
  "send_to_all_groups_once scenario_d m None tr =
     (Inr (0, 1),
      tr @ [IterDialogs, Log (FoundGroups 1), Log (SendingTo 1),
            SendMessage (Chat 1) m, Log (ErrorSending ''G1'')])"
proof -
  have "fst (get_all_groups scenario_d tr) = Inr [group_of 1 ''G1'']"
    by (simp add: scenario_d_catalog)
  from once_returns [OF this] show ?thesis
    by (simp add: dispatch_groups_def scenario_d_catalog or_empty_def Let_def send_to_group_def
        group_of_def) (simp add: scenario_d_def)
qed

lemma scenario_d_round:
  "run_round scenario_d m R d None i rs =
     (None,
      \<lparr>total_success = total_success rs, total_failed = total_failed rs + 1,
       history = history rs @
         [Log (RoundHeader i R), IterDialogs, Log (FoundGroups 1), Log (SendingTo 1),
          SendMessage (Chat 1) m, Log (ErrorSending ''G1''), Log (RoundResults i 0 1)] @
         (if i < R then [Log (WaitingNextRound d), Sleep d] else [])\<rparr>)"
  by (simp add: run_round_def scenario_d_pass)

lemma scenario_d_broadcast:
  "broadcast_with_delay scenario_d ''hi'' 3 10 None [] =
     (Inr None,
      [Log (StartingBroadcast 3 10),
       Log (RoundHeader 1 3), IterDialogs, Log (FoundGroups 1), Log (SendingTo 1),
       SendMessage (Chat 1) ''hi'', Log (ErrorSending ''G1''), Log (RoundResults 1 0 1),
       Log (WaitingNextRound 10), Sleep 10,
       Log (RoundHeader 2 3), IterDialogs, Log (FoundGroups 1), Log (SendingTo 1),
       SendMessage (Chat 1) ''hi'', Log (ErrorSending ''G1''), Log (RoundResults 2 0 1),
       Log (WaitingNextRound 10), Sleep 10,
       Log (RoundHeader 3 3), IterDialogs, Log (FoundGroups 1), Log (SendingTo 1),
       SendMessage (Chat 1) ''hi'', Log (ErrorSending ''G1''), Log (RoundResults 3 0 1),
       Log FinalSummary, Log (TotalSent 0), Log (TotalFailed 3), Log (RoundsCompleted 3)])"
  by (simp add: broadcast_with_delay_def rounds_loop.simps scenario_d_round)

lemma scenario_a_catalog:
  "get_all_groups scenario_a tr =
     (Inr [\<lparr>g_entity = Chat 1, g_title = ''G1'', g_id = 1, g_type = ''group''\<rparr>,
           \<lparr>g_entity = Channel 2 True False, g_title = ''G2'', g_id = 2,
            g_type = ''supergroup''\<rparr>],
      tr @ [IterDialogs, Log (FoundGroups 2)])"
  by (simp add: get_all_groups_def scenario_a_def scan_dialog_def)

lemma scenario_a_pass:
  "send_to_all_groups_once scenario_a m None tr =
     (Inr (2, 0),
      tr @ [IterDialogs, Log (FoundGroups 2), Log (SendingTo 2),
            SendMessage (Chat 1) m, Log (SentTo ''G1'' 1 2),
            SendMessage (Channel 2 True False) m, Log (SentTo ''G2'' 2 2)])"
proof -
  have "fst (get_all_groups scenario_a tr) =
      Inr [\<lparr>g_entity = Chat 1, g_title = ''G1'', g_id = 1, g_type = ''group''\<rparr>,
           \<lparr>g_entity = Channel 2 True False, g_title = ''G2'', g_id = 2,
            g_type = ''supergroup''\<rparr>]"
    by (simp add: scenario_a_catalog)
  from once_returns [OF this] show ?thesis
    by (simp add: dispatch_groups_def scenario_a_catalog or_empty_def Let_def send_to_group_def)
       (simp add: scenario_a_def)
qed

lemma scenario_a_broadcast:
  "broadcast_with_delay scenario_a ''hi'' 1 10 None [] =
     (Inr None,
      [Log (StartingBroadcast 1 10),
       Log (RoundHeader 1 1), IterDialogs, Log (FoundGroups 2), Log (SendingTo 2),
       SendMessage (Chat 1) ''hi'', Log (SentTo ''G1'' 1 2),
       SendMessage (Channel 2 True False) ''hi'', Log (SentTo ''G2'' 2 2),
       Log (RoundResults 1 2 0),
       Log FinalSummary, Log (TotalSent 2), Log (TotalFailed 0), Log (RoundsCompleted 1)])"
  by (simp add: broadcast_with_delay_def rounds_loop.simps run_round_def scenario_a_pass)

text \<open>
  C1, as the claim states it, fails: with two groups that accept the message and
  one round, the method logs the totals 2 and 0 and returns \<open>None\<close>, not a
  summary holding them.
\<close>

theorem broadcast_returns_summary_counterexample:
  "snd (broadcast_with_delay scenario_a ''hi'' 1 10 None []) =
     [Log (StartingBroadcast 1 10),
      Log (RoundHeader 1 1), IterDialogs, Log (FoundGroups 2), Log (SendingTo 2),
      SendMessage (Chat 1) ''hi'', Log (SentTo ''G1'' 1 2),
      SendMessage (Channel 2 True False) ''hi'', Log (SentTo ''G2'' 2 2),
      Log (RoundResults 1 2 0),
      Log FinalSummary, Log (TotalSent 2), Log (TotalFailed 0), Log (RoundsCompleted 1)]
   \<and> fst (broadcast_with_delay scenario_a ''hi'' 1 10 None []) = Inr None
   \<and> fst (broadcast_with_delay scenario_a ''hi'' 1 10 None []) \<noteq>
       Inr (Some \<lparr>totalSuccess = 2, totalFailed = 0, roundsExecuted = 1\<rparr>)"
  by (simp add: scenario_a_broadcast)

text \<open>
  C1, amended. \<open>broadcast_with_delay\<close> never returns a summary. When no
  enumeration escapes, it returns \<open>None\<close>, and its last four log entries are the
  final summary: the number of sends the call logged as sent, the number it logged
  as failed, and the \<open>rounds\<close> argument. The call runs \<open>rounds\<close> rounds (none
  when \<open>rounds\<close> is below 1).
\<close>

theorem summary_is_logged_not_returned:
  "fst (broadcast_with_delay P m R d ex tr) \<noteq> Inr (Some s)
   \<and> ((\<forall>h. no_escape (iter_dialogs P h)) \<longrightarrow>
        fst (broadcast_with_delay P m R d ex tr) = Inr None
        \<and> (\<exists>h ts tf.
             snd (broadcast_with_delay P m R d ex tr) =
               h @ [Log FinalSummary, Log (TotalSent ts), Log (TotalFailed tf),
                    Log (RoundsCompleted R)]
             \<and> length (sent_titles h) = length (sent_titles tr) + ts
             \<and> length (failed_titles h) = length (failed_titles tr) + tf
             \<and> length (round_headers h) = length (round_headers tr) + nat R))"
proof -
  let ?init = "\<lparr>total_success = 0, total_failed = 0,
                history = tr @ [Log (StartingBroadcast R d)]\<rparr>"
  let ?fin = "snd (rounds_loop P m R d ex 1 ?init)"
  have "fst (broadcast_with_delay P m R d ex tr) = Inr None
        \<and> (\<exists>h ts tf.
             snd (broadcast_with_delay P m R d ex tr) =
               h @ [Log FinalSummary, Log (TotalSent ts), Log (TotalFailed tf),
                    Log (RoundsCompleted R)]
             \<and> length (sent_titles h) = length (sent_titles tr) + ts
             \<and> length (failed_titles h) = length (failed_titles tr) + tf
             \<and> length (round_headers h) = length (round_headers tr) + nat R)"
    if ne: "\<forall>h. no_escape (iter_dialogs P h)"
  proof -
    have a: "length (sent_titles (history ?fin)) = length (sent_titles tr) + total_success ?fin"
      using rounds_sent [OF ne, of m R d ex 1 ?init] by simp
    have b: "length (failed_titles (history ?fin)) = length (failed_titles tr) + total_failed ?fin"
      using rounds_failed [OF ne, of m R d ex 1 ?init] by simp
    have c: "length (round_headers (history ?fin)) = length (round_headers tr) + nat R"
      by (simp add: rounds_round_headers [OF ne])
    show ?thesis
      using a b c by (simp add: broadcast_returns [OF ne])
  qed
  with broadcast_never_returns_a_summary [of P m R d ex tr s] show ?thesis
    by blast
qed

theorem summary_is_logged_not_returned_witness:
  "(\<forall>h. no_escape (iter_dialogs scenario_d h))
   \<and> fst (broadcast_with_delay scenario_d ''hi'' 3 10 None []) = Inr None
   \<and> drop 26 (snd (broadcast_with_delay scenario_d ''hi'' 3 10 None [])) =
       [Log FinalSummary, Log (TotalSent 0), Log (TotalFailed 3), Log (RoundsCompleted 3)]"
proof -
  from summary_is_logged_not_returned [of scenario_d "''hi''" 3 10 None "[]"]
    scenario_d_never_escapes
  have "fst (broadcast_with_delay scenario_d ''hi'' 3 10 None []) = Inr None"
    by blast
  with scenario_d_never_escapes show ?thesis
    by (simp add: scenario_d_broadcast)
qed

text \<open>
  C2. With \<open>rounds = R\<close>, \<open>R \<ge> 1\<close> and no enumeration escaping, a broadcast
  returns after exactly \<open>R\<close> runs of the round body, for the rounds 1 to \<open>R\<close> in
  order. Each run of the round body is one run of the whole pipeline: it resolves
  the catalog once, skips exactly the excluded groups of that catalog, attempts
  exactly the others in order (sending to them only), counts one success or
  failure for each attempt, and sleeps for the delay only when the round is not
  the last. In total the catalog is resolved \<open>R\<close> times, there are exactly
  \<open>R - 1\<close> sleeps for the delay between rounds, every other sleep is a flood wait,
  and after the results of round \<open>R\<close> nothing follows but the final summary.
\<close>

theorem rounds_and_pauses:
  "1 \<le> R \<Longrightarrow> \<forall>h. no_escape (iter_dialogs P h) \<Longrightarrow>
   fst (broadcast_with_delay P m R d ex tr) = Inr None
   \<and> snd (broadcast_with_delay P m R d ex tr) =
       (let fin = foldl (\<lambda>rs i. snd (run_round P m R d ex i rs))
                    \<lparr>total_success = 0, total_failed = 0,
                     history = tr @ [Log (StartingBroadcast R d)]\<rparr> [1..R]
        in history fin @
             [Log FinalSummary, Log (TotalSent (total_success fin)),
              Log (TotalFailed (total_failed fin)), Log (RoundsCompleted R)])
   \<and> (fst (get_all_groups P (history rs @ [Log (RoundHeader i R)])) = Inr groups \<longrightarrow>
        (let rs' = snd (run_round P m R d ex i rs);
             (accepted, skipped) = spec_exclusion_filter groups (or_empty ex)
         in fst (run_round P m R d ex i rs) = None
            \<and> resolutions (history rs') = Suc (resolutions (history rs))
            \<and> attempted_titles (history rs') = attempted_titles (history rs) @ map g_title accepted
            \<and> skipped_titles (history rs') = skipped_titles (history rs) @ map g_title skipped
            \<and> set (sends (history rs')) =
                set (sends (history rs)) \<union> (\<lambda>g. (g_entity g, m)) ` set accepted
            \<and> total_success rs' + total_failed rs' =
                total_success rs + total_failed rs + length accepted
            \<and> round_pauses (history rs') =
                round_pauses (history rs) @ (if i < R then [d] else [])))
   \<and> resolutions (snd (broadcast_with_delay P m R d ex tr)) = resolutions tr + nat R
   \<and> round_headers (snd (broadcast_with_delay P m R d ex tr)) =
       round_headers tr @ map (\<lambda>k. (k, R)) [1..R]
   \<and> round_pauses (snd (broadcast_with_delay P m R d ex tr)) =
       round_pauses tr @ replicate (nat R - 1) d
   \<and> length (sleeps (snd (broadcast_with_delay P m R d ex tr))) + length (flood_pauses tr) =
       length (sleeps tr) + length (flood_pauses (snd (broadcast_with_delay P m R d ex tr)))
         + (nat R - 1)
   \<and> (\<exists>pre s f ts tf.
        snd (broadcast_with_delay P m R d ex tr) =
          pre @ [Log (RoundResults R s f), Log FinalSummary, Log (TotalSent ts),
                 Log (TotalFailed tf), Log (RoundsCompleted R)])"
proof -
  assume R: "1 \<le> R" and ne: "\<forall>h. no_escape (iter_dialogs P h)"
  let ?init = "\<lparr>total_success = 0, total_failed = 0,
                history = tr @ [Log (StartingBroadcast R d)]\<rparr>"
  let ?fin = "snd (rounds_loop P m R d ex 1 ?init)"
  note B = broadcast_returns [OF ne]
  have n: "nat (R - 1) = nat R - 1"
    using R by simp
  have ret: "fst (broadcast_with_delay P m R d ex tr) = Inr None"
    by (simp add: B)
  have fold: "snd (broadcast_with_delay P m R d ex tr) =
       (let fin = foldl (\<lambda>rs i. snd (run_round P m R d ex i rs)) ?init [1..R]
        in history fin @
             [Log FinalSummary, Log (TotalSent (total_success fin)),
              Log (TotalFailed (total_failed fin)), Log (RoundsCompleted R)])"
    by (simp add: B rounds_fold [OF ne] Let_def)
  have round: "let rs' = snd (run_round P m R d ex i rs);
             (accepted, skipped) = spec_exclusion_filter groups (or_empty ex)
         in fst (run_round P m R d ex i rs) = None
            \<and> resolutions (history rs') = Suc (resolutions (history rs))
            \<and> attempted_titles (history rs') = attempted_titles (history rs) @ map g_title accepted
            \<and> skipped_titles (history rs') = skipped_titles (history rs) @ map g_title skipped
            \<and> set (sends (history rs')) =
                set (sends (history rs)) \<union> (\<lambda>g. (g_entity g, m)) ` set accepted
            \<and> total_success rs' + total_failed rs' =
                total_success rs + total_failed rs + length accepted
            \<and> round_pauses (history rs') =
                round_pauses (history rs) @ (if i < R then [d] else [])"
    if g: "fst (get_all_groups P (history rs @ [Log (RoundHeader i R)])) = Inr groups"
  proof -
    from ne have e: "no_escape (iter_dialogs P (history rs @ [Log (RoundHeader i R)]))"
      by simp
    show ?thesis
      using round_dispatch [OF g, of m d ex]
      by (simp add: Let_def spec_exclusion_filter_def round_returns [OF e]
          round_resolutions [OF e] round_round_pauses [OF e] del: set_filter)
  qed
  have a: "resolutions (history ?fin) = resolutions tr + nat R"
    by (simp add: rounds_resolutions [OF ne])
  have b: "round_headers (history ?fin) = round_headers tr @ map (\<lambda>k. (k, R)) [1..R]"
    by (simp add: rounds_round_headers [OF ne])
  have c: "round_pauses (history ?fin) = round_pauses tr @ replicate (nat R - 1) d"
    by (simp add: rounds_round_pauses [OF ne] n)
  have e: "length (sleeps (history ?fin)) + length (flood_pauses tr) =
       length (sleeps tr) + length (flood_pauses (history ?fin)) + (nat R - 1)"
    using rounds_sleeps [OF ne, of m R d ex 1 ?init] by (simp add: n)
  obtain pre s f where f: "history ?fin = pre @ [Log (RoundResults R s f)]"
    using rounds_last [OF ne R, of m d ex ?init] by blast
  have g: "\<exists>pre s f ts tf.
        snd (broadcast_with_delay P m R d ex tr) =
          pre @ [Log (RoundResults R s f), Log FinalSummary, Log (TotalSent ts),
                 Log (TotalFailed tf), Log (RoundsCompleted R)]"
    by (simp add: B f)
  have h: "resolutions (snd (broadcast_with_delay P m R d ex tr)) = resolutions tr + nat R
   \<and> round_headers (snd (broadcast_with_delay P m R d ex tr)) =
       round_headers tr @ map (\<lambda>k. (k, R)) [1..R]
   \<and> round_pauses (snd (broadcast_with_delay P m R d ex tr)) =
       round_pauses tr @ replicate (nat R - 1) d
   \<and> length (sleeps (snd (broadcast_with_delay P m R d ex tr))) + length (flood_pauses tr) =
       length (sleeps tr) + length (flood_pauses (snd (broadcast_with_delay P m R d ex tr)))
         + (nat R - 1)"
    using a b c e by (simp add: B)
  from ret fold round h g show ?thesis
    by blast
qed

theorem rounds_and_pauses_witness:
  "(1::int) \<le> 3
   \<and> (\<forall>h. no_escape (iter_dialogs scenario_d h))
   \<and> fst (get_all_groups scenario_d ([Log (StartingBroadcast 3 10)] @ [Log (RoundHeader 1 3)])) =
       Inr [group_of 1 ''G1'']
   \<and> fst (broadcast_with_delay scenario_d ''hi'' 3 10 None []) = Inr None
   \<and> attempted_titles
        (history (snd (run_round scenario_d ''hi'' 3 10 None 1
                         \<lparr>total_success = 0, total_failed = 0,
                          history = [Log (StartingBroadcast 3 10)]\<rparr>))) = [''G1'']
   \<and> resolutions (snd (broadcast_with_delay scenario_d ''hi'' 3 10 None [])) = 3
   \<and> round_headers (snd (broadcast_with_delay scenario_d ''hi'' 3 10 None [])) =
       [(1, 3), (2, 3), (3, 3)]
   \<and> round_pauses (snd (broadcast_with_delay scenario_d ''hi'' 3 10 None [])) = [10, 10]
   \<and> sleeps (snd (broadcast_with_delay scenario_d ''hi'' 3 10 None [])) = [10, 10]"
proof -
  have h: "(1::int) \<le> 3"
    by simp
  have k: "fst (get_all_groups scenario_d
                  ([Log (StartingBroadcast 3 10)] @ [Log (RoundHeader 1 3)])) =
       Inr [group_of 1 ''G1'']"
    by (simp add: scenario_d_catalog)
  note t = rounds_and_pauses
             [OF h scenario_d_never_escapes,
              where m = "''hi''" and d = 10 and ex = None and tr = "[]" and i = 1
                and rs = "\<lparr>total_success = 0, total_failed = 0,
                           history = [Log (StartingBroadcast 3 10)]\<rparr>"
                and groups = "[group_of 1 ''G1'']"]
  from t
  have c: "round_pauses (snd (broadcast_with_delay scenario_d ''hi'' 3 10 None [])) =
       round_pauses [] @ replicate (nat 3 - 1) 10"
    by blast
  have e: "round_pauses [] = []"
    by (simp add: round_pauses_def pauses_def List.map_filter_simps)
  have n: "replicate (nat 3 - 1) (10::int) = [10, 10]"
    by (simp add: numeral_2_eq_2)
  from c e n
  have p: "round_pauses (snd (broadcast_with_delay scenario_d ''hi'' 3 10 None [])) = [10, 10]"
    by simp
  have r: "fst (broadcast_with_delay scenario_d ''hi'' 3 10 None []) = Inr None
   \<and> resolutions (snd (broadcast_with_delay scenario_d ''hi'' 3 10 None [])) = 3
   \<and> round_headers (snd (broadcast_with_delay scenario_d ''hi'' 3 10 None [])) =
       [(1, 3), (2, 3), (3, 3)]
   \<and> sleeps (snd (broadcast_with_delay scenario_d ''hi'' 3 10 None [])) = [10, 10]"
    by (simp add: scenario_d_broadcast)
  have a: "attempted_titles
        (history (snd (run_round scenario_d ''hi'' 3 10 None 1
                         \<lparr>total_success = 0, total_failed = 0,
                          history = [Log (StartingBroadcast 3 10)]\<rparr>))) = [''G1'']"
    by (simp add: scenario_d_round)
  from h k p r a scenario_d_never_escapes show ?thesis
    by blast
qed

text \<open>
  C10. With \<open>rounds = 0\<close> the broadcast completes without resolving the catalog,
  sending or sleeping: it logs the start and the final summary with both totals 0.
\<close>

theorem zero_rounds_does_nothing:
  "broadcast_with_delay P m 0 d ex tr =
     (Inr None,
      tr @ [Log (StartingBroadcast 0 d), Log FinalSummary, Log (TotalSent 0),
            Log (TotalFailed 0), Log (RoundsCompleted 0)])
   \<and> resolutions (snd (broadcast_with_delay P m 0 d ex tr)) = resolutions tr
   \<and> sends (snd (broadcast_with_delay P m 0 d ex tr)) = sends tr
   \<and> sleeps (snd (broadcast_with_delay P m 0 d ex tr)) = sleeps tr"
proof -
  have "rounds_loop P m 0 d ex 1 rs = (None, rs)" for rs
    by (subst rounds_loop.simps) simp
  then show ?thesis
    by (simp add: broadcast_with_delay_def)
qed

theorem zero_rounds_does_nothing_witness:
  "broadcast_with_delay cancelled_enumeration ''hi'' 0 10 None [] =
     (Inr None,
      [Log (StartingBroadcast 0 10), Log FinalSummary, Log (TotalSent 0),
       Log (TotalFailed 0), Log (RoundsCompleted 0)])"
  using zero_rounds_does_nothing [of cancelled_enumeration "''hi''" 10 None "[]"]
  by simp

end
